theory Spec2Isabelle
  imports Complex_Main "HOL-Library.Multiset" "HOL-Library.Monad_Syntax"
begin

text \<open>
  A model of \<open>src/utils/scoring.js\<close>: the transform score (calculateScore with
  calculateComplexityFactor and calculateBonusPoints), the readability score, the
  challenge score with its helpers, and the leaderboard.  Every function of the file
  is a definition of the same name; the definitions come first, the properties after
  them.
\<close>

section \<open>JavaScript values used by the scoring utilities\<close>

text \<open>
  A JavaScript string is a sequence of UTF-16 code units; \<open>length\<close> counts code units.
  A code unit is modelled as a natural number, so every statement about all
  \<open>jsstring\<close> values covers every JavaScript string.  \<open>js\<close> turns an ASCII literal
  into its code units.
\<close>

type_synonym jsstring = "nat list"

definition cu :: "char \<Rightarrow> nat" where
  "cu c = of_char c"

definition js :: "string \<Rightarrow> jsstring" where
  "js cs = map cu cs"

text \<open>
  A JavaScript number is a finite value, one of the two infinities, or NaN.  A finite
  value is a rational number.  Lengths, counts and the integers computed from them are
  exact doubles (a string has fewer than \<open>2^53\<close> code units).  A quotient of two of
  them that is only compared with a threshold is kept exact: it equals the threshold
  or differs from it by at least one part in ten times the length, far more than a
  rounding error, so both comparisons agree.  The complexity factor, a product of two
  decimal constants, is kept exact as well (the double differs from it in the last
  bit at most).  Where the code rounds a quotient, a difference or a product and an
  integer result depends on the rounding (the averages of the name lengths and what
  is computed from them), the model rounds as the code does, with \<open>double\<close> below.
  Every zero that is used as a divisor in \<open>scoring.js\<close> is a string length or a
  count, hence \<open>+0\<close>, so \<open>x / 0\<close> is \<open>+Infinity\<close>, \<open>-Infinity\<close> or NaN by the sign
  of \<open>x\<close>.  A comparison with NaN is false.
\<close>

datatype jsnum = Fin rat | PosInf | NegInf | NaN

fun js_div :: "jsnum \<Rightarrow> jsnum \<Rightarrow> jsnum" where
  "js_div (Fin a) (Fin b) =
     (if b = 0 then (if a = 0 then NaN else if 0 < a then PosInf else NegInf) else Fin (a / b))"
| "js_div NaN _ = NaN"
| "js_div _ NaN = NaN"
| "js_div (Fin a) _ = Fin 0"
| "js_div PosInf (Fin b) = (if 0 \<le> b then PosInf else NegInf)"
| "js_div NegInf (Fin b) = (if 0 \<le> b then NegInf else PosInf)"
| "js_div _ _ = NaN"

fun js_mul :: "jsnum \<Rightarrow> jsnum \<Rightarrow> jsnum" where
  "js_mul (Fin a) (Fin b) = Fin (a * b)"
| "js_mul NaN _ = NaN"
| "js_mul _ NaN = NaN"
| "js_mul (Fin a) PosInf = (if a = 0 then NaN else if 0 < a then PosInf else NegInf)"
| "js_mul (Fin a) NegInf = (if a = 0 then NaN else if 0 < a then NegInf else PosInf)"
| "js_mul PosInf (Fin b) = (if b = 0 then NaN else if 0 < b then PosInf else NegInf)"
| "js_mul NegInf (Fin b) = (if b = 0 then NaN else if 0 < b then NegInf else PosInf)"
| "js_mul PosInf PosInf = PosInf"
| "js_mul PosInf NegInf = NegInf"
| "js_mul NegInf PosInf = NegInf"
| "js_mul NegInf NegInf = PosInf"

fun js_add :: "jsnum \<Rightarrow> jsnum \<Rightarrow> jsnum" where
  "js_add (Fin a) (Fin b) = Fin (a + b)"
| "js_add NaN _ = NaN"
| "js_add _ NaN = NaN"
| "js_add PosInf NegInf = NaN"
| "js_add NegInf PosInf = NaN"
| "js_add PosInf _ = PosInf"
| "js_add _ PosInf = PosInf"
| "js_add NegInf _ = NegInf"
| "js_add _ NegInf = NegInf"

fun js_sub :: "jsnum \<Rightarrow> jsnum \<Rightarrow> jsnum" where
  "js_sub (Fin a) (Fin b) = Fin (a - b)"
| "js_sub NaN _ = NaN"
| "js_sub _ NaN = NaN"
| "js_sub PosInf PosInf = NaN"
| "js_sub NegInf NegInf = NaN"
| "js_sub PosInf _ = PosInf"
| "js_sub _ NegInf = PosInf"
| "js_sub NegInf _ = NegInf"
| "js_sub _ PosInf = NegInf"

text \<open>\<open>js_lt a b\<close> is the JavaScript comparison \<open>a < b\<close>; \<open>a > b\<close> is \<open>js_lt b a\<close>.\<close>

fun js_lt :: "jsnum \<Rightarrow> jsnum \<Rightarrow> bool" where
  "js_lt (Fin a) (Fin b) = (a < b)"
| "js_lt NaN _ = False"
| "js_lt _ NaN = False"
| "js_lt PosInf _ = False"
| "js_lt _ PosInf = True"
| "js_lt _ NegInf = False"
| "js_lt NegInf _ = True"

text \<open>\<open>js_le a b\<close> is \<open>a <= b\<close>.\<close>

fun js_le :: "jsnum \<Rightarrow> jsnum \<Rightarrow> bool" where
  "js_le (Fin a) (Fin b) = (a \<le> b)"
| "js_le NaN _ = False"
| "js_le _ NaN = False"
| "js_le _ PosInf = True"
| "js_le NegInf _ = True"
| "js_le PosInf _ = False"
| "js_le _ NegInf = False"

text \<open>\<open>Math.round\<close>: the nearest integer, a tie going up; NaN and the infinities are kept.\<close>

definition roundHalfUp :: "rat \<Rightarrow> int" where
  "roundHalfUp a = \<lfloor>a + 1 / 2\<rfloor>"

fun Math_round :: "jsnum \<Rightarrow> jsnum" where
  "Math_round (Fin a) = Fin (of_int (roundHalfUp a))"
| "Math_round x = x"

fun Math_abs :: "jsnum \<Rightarrow> jsnum" where
  "Math_abs (Fin a) = Fin \<bar>a\<bar>"
| "Math_abs NegInf = PosInf"
| "Math_abs x = x"

text \<open>
  IEEE 754 binary64 rounding of an exact value: to the nearest number with a 53 bit
  significand (with the fixed spacing \<open>2^-1074\<close> below \<open>2^-1022\<close>), a tie going to the
  even significand.  \<open>ilog2 n\<close> is the binary logarithm of \<open>n \<ge> 1\<close> rounded down, and
  \<open>floorLog2 x\<close> that of a positive rational.  Overflow to Infinity is not part of
  \<open>double\<close>: the values rounded in this file are averages of name lengths, their
  differences and ten times these, all below \<open>2^57\<close>.
\<close>

function ilog2 :: "int \<Rightarrow> nat" where
  "ilog2 n = (if n < 2 then 0 else Suc (ilog2 (n div 2)))"
  by pat_completeness auto
termination
  by (relation "measure nat") auto

declare ilog2.simps [simp del]

definition floorLog2 :: "rat \<Rightarrow> int" where
  "floorLog2 x =
     (if 1 \<le> x then int (ilog2 \<lfloor>x\<rfloor>)
      else (let k = ilog2 \<lfloor>1 / x\<rfloor>
            in if 1 / x = 2 ^ k then - int k else - int k - 1))"

definition roundTiesToEven :: "rat \<Rightarrow> int" where
  "roundTiesToEven x =
     (let f = \<lfloor>x\<rfloor>; r = x - of_int f
      in if r < 1 / 2 then f else if 1 / 2 < r then f + 1 else if even f then f else f + 1)"

text \<open>The spacing of the doubles around \<open>x\<close>.\<close>

definition ulpOf :: "rat \<Rightarrow> rat" where
  "ulpOf x =
     (let e = max (floorLog2 \<bar>x\<bar>) (- 1022)
      in if 52 \<le> e then 2 ^ nat (e - 52) else 1 / 2 ^ nat (52 - e))"

definition double :: "rat \<Rightarrow> rat" where
  "double x = (if x = 0 then 0 else of_int (roundTiesToEven (x / ulpOf x)) * ulpOf x)"

definition num :: "int \<Rightarrow> jsnum" where
  "num i = Fin (of_int i)"

definition strlen :: "jsstring \<Rightarrow> jsnum" where
  "strlen s = num (int (length s))"

section \<open>Strings: whitespace, trimming, substrings, indexOf\<close>

text \<open>
  The white space and line terminator code units of ECMAScript: what \<open>\s\<close> matches
  in a regular expression and what \<open>trim\<close> removes.
\<close>

definition isWhiteSpace :: "nat \<Rightarrow> bool" where
  "isWhiteSpace c =
     (c = 9 \<or> c = 10 \<or> c = 11 \<or> c = 12 \<or> c = 13 \<or> c = 32 \<or> c = 160 \<or> c = 5760
      \<or> (8192 \<le> c \<and> c \<le> 8202) \<or> c = 8232 \<or> c = 8233 \<or> c = 8239 \<or> c = 8287
      \<or> c = 12288 \<or> c = 65279)"

definition between :: "char \<Rightarrow> char \<Rightarrow> nat \<Rightarrow> bool" where
  "between a b c = (cu a \<le> c \<and> c \<le> cu b)"

definition oneOf :: "string \<Rightarrow> nat \<Rightarrow> bool" where
  "oneOf cs c = (c \<in> set (map cu cs))"

text \<open>The word characters of \<open>\b\<close>: \<open>[A-Za-z0-9_]\<close>.\<close>

definition isWordChar :: "nat \<Rightarrow> bool" where
  "isWordChar c =
     (between CHR ''a'' CHR ''z'' c \<or> between CHR ''A'' CHR ''Z'' c
      \<or> between CHR ''0'' CHR ''9'' c \<or> c = cu CHR ''_'')"

definition substring :: "jsstring \<Rightarrow> nat \<Rightarrow> nat \<Rightarrow> jsstring" where
  "substring s a b = take (b - a) (drop a s)"

definition trimStart :: "jsstring \<Rightarrow> jsstring" where
  "trimStart s = dropWhile isWhiteSpace s"

definition trim :: "jsstring \<Rightarrow> jsstring" where
  "trim s = rev (dropWhile isWhiteSpace (rev (dropWhile isWhiteSpace s)))"

definition endsWith :: "jsstring \<Rightarrow> nat \<Rightarrow> bool" where
  "endsWith s c = (case rev s of [] \<Rightarrow> False | d # _ \<Rightarrow> d = c)"

definition startsWith :: "jsstring \<Rightarrow> nat \<Rightarrow> bool" where
  "startsWith s c = (case s of [] \<Rightarrow> False | d # _ \<Rightarrow> d = c)"

text \<open>\<open>s.split(sep)\<close> for a separator of one code unit; \<open>"".split(sep)\<close> is \<open>[""]\<close>.\<close>

fun splitOn :: "nat \<Rightarrow> jsstring \<Rightarrow> jsstring list" where
  "splitOn sep [] = [[]]"
| "splitOn sep (c # cs) =
     (if c = sep then [] # splitOn sep cs
      else (case splitOn sep cs of [] \<Rightarrow> [[c]] | l # ls \<Rightarrow> (c # l) # ls))"

definition newline :: nat where
  "newline = 10"

text \<open>
  \<open>str.indexOf(searchStr, fromIndex)\<close>: the first position at or after
  \<open>min(fromIndex, str.length)\<close> where \<open>searchStr\<close> occurs; \<open>None\<close> stands for \<open>-1\<close>.
  \<open>indexOfFrom\<close> walks the rest of the string, \<open>k\<close> being the position of its head.
\<close>

fun indexOfFrom :: "jsstring \<Rightarrow> jsstring \<Rightarrow> nat \<Rightarrow> nat option" where
  "indexOfFrom searchStr [] k = (if searchStr = [] then Some k else None)"
| "indexOfFrom searchStr (c # rest) k =
     (if take (length searchStr) (c # rest) = searchStr then Some k
      else indexOfFrom searchStr rest (k + 1))"

definition indexOf :: "jsstring \<Rightarrow> jsstring \<Rightarrow> nat \<Rightarrow> nat option" where
  "indexOf str searchStr fromIndex =
     (let start = min fromIndex (length str) in indexOfFrom searchStr (drop start str) start)"

section \<open>Regular expressions\<close>

text \<open>
  The regular expressions of \<open>scoring.js\<close> are written as terms of \<open>regex\<close> and run
  by a backtracking matcher that follows the ECMAScript matching order.  A match state
  is the end index and the captures made so far (group number, start, end).  For a
  pattern and a state, \<open>matcher\<close> returns every state in which the pattern can end, in
  the order in which backtracking tries them; the first one is the match that
  \<open>exec\<close> reports.  A star is greedy and, as in ECMAScript, an iteration that matches
  the empty string is rejected; hence at most \<open>length s - index\<close> iterations happen,
  which bounds the recursion of \<open>repeatMatcher\<close>.
\<close>

type_synonym captures = "(nat \<times> nat \<times> nat) list"
type_synonym mstate = "nat \<times> captures"

datatype regex =
    Class "nat \<Rightarrow> bool"
  | Seq regex regex
  | Alt regex regex
  | Star regex
  | Group nat regex
  | WordBoundary
  | Empty

definition isWordAt :: "jsstring \<Rightarrow> nat \<Rightarrow> bool" where
  "isWordAt s i = (i < length s \<and> isWordChar (s ! i))"

definition atWordBoundary :: "jsstring \<Rightarrow> nat \<Rightarrow> bool" where
  "atWordBoundary s i = ((0 < i \<and> isWordAt s (i - 1)) \<noteq> isWordAt s i)"

primrec repeatMatcher :: "(mstate \<Rightarrow> mstate list) \<Rightarrow> nat \<Rightarrow> mstate \<Rightarrow> mstate list" where
  "repeatMatcher m 0 x = [x]"
| "repeatMatcher m (Suc n) x =
     concat (map (repeatMatcher m n) (filter (\<lambda>y. fst y \<noteq> fst x) (m x))) @ [x]"

primrec matcher :: "regex \<Rightarrow> jsstring \<Rightarrow> mstate \<Rightarrow> mstate list" where
  "matcher (Class p) s x =
     (if fst x < length s \<and> p (s ! fst x) then [(fst x + 1, snd x)] else [])"
| "matcher (Seq r1 r2) s x = concat (map (matcher r2 s) (matcher r1 s x))"
| "matcher (Alt r1 r2) s x = matcher r1 s x @ matcher r2 s x"
| "matcher (Star r) s x = repeatMatcher (matcher r s) (length s - fst x) x"
| "matcher (Group n r) s x = map (\<lambda>y. (fst y, (n, fst x, fst y) # snd y)) (matcher r s x)"
| "matcher WordBoundary s x = (if atWordBoundary s (fst x) then [x] else [])"
| "matcher Empty s x = [x]"

text \<open>A literal piece of a pattern, \<open>r+\<close>, and a sequence of several parts.\<close>

fun lit :: "string \<Rightarrow> regex" where
  "lit [] = Empty"
| "lit [c] = Class (\<lambda>x. x = cu c)"
| "lit (c # cs) = Seq (Class (\<lambda>x. x = cu c)) (lit cs)"

definition Plus :: "regex \<Rightarrow> regex" where
  "Plus r = Seq r (Star r)"

fun seqs :: "regex list \<Rightarrow> regex" where
  "seqs [] = Empty"
| "seqs [r] = r"
| "seqs (r # rs) = Seq r (seqs rs)"

text \<open>The match that starts exactly at index \<open>i\<close>, if there is one.\<close>

definition matchAt :: "regex \<Rightarrow> jsstring \<Rightarrow> nat \<Rightarrow> mstate option" where
  "matchAt r s i = (case matcher r s (i, []) of [] \<Rightarrow> None | y # _ \<Rightarrow> Some y)"

text \<open>
  The matches of a global (\<open>/g\<close>) pattern, as \<open>match\<close> and \<open>matchAll\<close> find them: the
  start indices \<open>i\<close> are tried in increasing order (\<open>rest\<close> is the string from \<open>i\<close>
  on), those below \<open>lastIndex\<close> are skipped, and after a match \<open>lastIndex\<close> is its end
  (one more if the match is empty).
\<close>

fun globalScan :: "regex \<Rightarrow> jsstring \<Rightarrow> nat \<Rightarrow> nat \<Rightarrow> jsstring \<Rightarrow> (nat \<times> mstate) list" where
  "globalScan r s lastIndex i rest =
     (if i < lastIndex
      then (case rest of [] \<Rightarrow> [] | _ # rest' \<Rightarrow> globalScan r s lastIndex (i + 1) rest')
      else (case matchAt r s i of
              None \<Rightarrow> (case rest of [] \<Rightarrow> [] | _ # rest' \<Rightarrow> globalScan r s lastIndex (i + 1) rest')
            | Some y \<Rightarrow> (i, y) #
                (case rest of [] \<Rightarrow> []
                 | _ # rest' \<Rightarrow> globalScan r s (if fst y = i then fst y + 1 else fst y) (i + 1) rest')))"

declare globalScan.simps [simp del]

definition matchAll :: "regex \<Rightarrow> jsstring \<Rightarrow> (nat \<times> mstate) list" where
  "matchAll r s = globalScan r s 0 0 s"

text \<open>\<open>(s.match(r) || [])\<close> for a global pattern: the matched substrings.\<close>

definition matchOrEmpty :: "regex \<Rightarrow> jsstring \<Rightarrow> jsstring list" where
  "matchOrEmpty r s = map (\<lambda>m. substring s (fst m) (fst (snd m))) (matchAll r s)"

text \<open>\<open>match[n]\<close> of a match object: \<open>None\<close> is \<open>undefined\<close> (the group took no part).\<close>

definition matchGroup :: "jsstring \<Rightarrow> nat \<times> mstate \<Rightarrow> nat \<Rightarrow> jsstring option" where
  "matchGroup s m n =
     (case map_of (snd (snd m)) n of None \<Rightarrow> None | Some se \<Rightarrow> Some (substring s (fst se) (snd se)))"

text \<open>\<open>r.test(s)\<close> for a pattern without flags.\<close>

definition regexTest :: "regex \<Rightarrow> jsstring \<Rightarrow> bool" where
  "regexTest r s = (matchAll r s \<noteq> [])"

text \<open>
  \<open>s.split(r)\<close> for a pattern without groups, after the ECMAScript algorithm: \<open>p\<close> is
  the start of the current piece, \<open>q\<close> the index at which the separator is tried
  (\<open>rest\<close> is the string from \<open>q\<close> on); after a separator ending at \<open>e\<close> both continue
  at \<open>e\<close>, so the indices below the new \<open>p\<close> are skipped.
\<close>

fun splitScan :: "regex \<Rightarrow> jsstring \<Rightarrow> nat \<Rightarrow> nat \<Rightarrow> jsstring \<Rightarrow> jsstring list" where
  "splitScan r s p q [] = [substring s p (length s)]"
| "splitScan r s p q (c # rest) =
     (if q < p then splitScan r s p (q + 1) rest
      else (case matchAt r s q of
              None \<Rightarrow> splitScan r s p (q + 1) rest
            | Some y \<Rightarrow>
                (if fst y = p then splitScan r s p (q + 1) rest
                 else substring s p q # splitScan r s (fst y) (q + 1) rest)))"

definition splitRegex :: "regex \<Rightarrow> jsstring \<Rightarrow> jsstring list" where
  "splitRegex r s =
     (if s = [] then (case matchAt r s 0 of None \<Rightarrow> [s] | Some y \<Rightarrow> [])
      else splitScan r s 0 0 s)"

text \<open>\<open>xs[i]\<close> of an array: \<open>None\<close> is \<open>undefined\<close>.\<close>

fun element :: "'a list \<Rightarrow> nat \<Rightarrow> 'a option" where
  "element [] i = None"
| "element (x # xs) 0 = Some x"
| "element (x # xs) (Suc i) = element xs i"

text \<open>
  Reading \<open>length\<close> of each element of an array whose elements may be \<open>undefined\<close>
  throws a TypeError at the first \<open>undefined\<close>; \<open>None\<close> is that exception.
\<close>

fun defined :: "'a option list \<Rightarrow> 'a list option" where
  "defined [] = Some []"
| "defined (None # xs) = None"
| "defined (Some x # xs) = (case defined xs of None \<Rightarrow> None | Some ys \<Rightarrow> Some (x # ys))"

subsection \<open>The patterns of scoring.js\<close>

definition whiteSpace :: regex where
  "whiteSpace = Class isWhiteSpace"

definition identStart :: "nat \<Rightarrow> bool" where
  "identStart c =
     (between CHR ''a'' CHR ''z'' c \<or> between CHR ''A'' CHR ''Z'' c \<or> oneOf ''_$'' c)"

definition identPart :: "nat \<Rightarrow> bool" where
  "identPart c =
     (between CHR ''a'' CHR ''z'' c \<or> between CHR ''A'' CHR ''Z'' c
      \<or> between CHR ''0'' CHR ''9'' c \<or> oneOf ''_$'' c)"

definition letter :: "nat \<Rightarrow> bool" where
  "letter c = (between CHR ''a'' CHR ''z'' c \<or> between CHR ''A'' CHR ''Z'' c)"

definition alnum :: "nat \<Rightarrow> bool" where
  "alnum c =
     (between CHR ''a'' CHR ''z'' c \<or> between CHR ''A'' CHR ''Z'' c \<or> between CHR ''0'' CHR ''9'' c)"

definition declKeyword :: regex where
  "declKeyword = Alt (lit ''var'') (Alt (lit ''let'') (lit ''const''))"

text \<open>\<^verbatim>\<open>/\b(var|let|const)\s+([a-zA-Z_$][a-zA-Z0-9_$]*)\b/g\<close>\<close>

definition varDeclarationPattern :: regex where
  "varDeclarationPattern =
     seqs [WordBoundary, Group 1 declKeyword, Plus whiteSpace,
           Group 2 (Seq (Class identStart) (Star (Class identPart))), WordBoundary]"

text \<open>\<^verbatim>\<open>/\s+/\<close>\<close>

definition whiteSpaceRun :: regex where
  "whiteSpaceRun = Plus whiteSpace"

text \<open>\<^verbatim>\<open>/if\s*\(\s*(false|0)\s*\)/g\<close>\<close>

definition unreachableIfPattern :: regex where
  "unreachableIfPattern =
     seqs [lit ''if'', Star whiteSpace, lit ''('', Star whiteSpace,
           Group 1 (Alt (lit ''false'') (lit ''0'')), Star whiteSpace, lit '')'']"

text \<open>\<^verbatim>\<open>/{\s*}/g\<close>\<close>

definition emptyBlockPattern :: regex where
  "emptyBlockPattern = seqs [lit ''{'', Star whiteSpace, lit ''}'']"

text \<open>\<^verbatim>\<open>/{/g\<close> and \<^verbatim>\<open>/}/g\<close>\<close>

definition openBracePattern :: regex where
  "openBracePattern = lit ''{''"

definition closeBracePattern :: regex where
  "closeBracePattern = lit ''}''"

text \<open>\<^verbatim>\<open>/eval\s*\(/g\<close>\<close>

definition evalPattern :: regex where
  "evalPattern = seqs [lit ''eval'', Star whiteSpace, lit ''('']"

text \<open>\<^verbatim>\<open>/new\s+Function\s*\(/g\<close>\<close>

definition functionConstructorPattern :: regex where
  "functionConstructorPattern =
     seqs [lit ''new'', Plus whiteSpace, lit ''Function'', Star whiteSpace, lit ''('']"

text \<open>\<^verbatim>\<open>/\b(var|let|const)\s+([a-zA-Z])\b/g\<close>\<close>

definition singleCharVarPattern :: regex where
  "singleCharVarPattern =
     seqs [WordBoundary, Group 1 declKeyword, Plus whiteSpace, Group 2 (Class letter), WordBoundary]"

text \<open>\<^verbatim>\<open>/\{[^\{\}]*\{[^\{\}]*\{[^\{\}]*\{/g\<close>\<close>

definition notBrace :: regex where
  "notBrace = Class (\<lambda>c. \<not> oneOf ''{}'' c)"

definition deepNestingPattern :: regex where
  "deepNestingPattern =
     seqs [lit ''{'', Star notBrace, lit ''{'', Star notBrace, lit ''{'', Star notBrace, lit ''{'']"

text \<open>
  \<^verbatim>\<open>/\b(var|let|const)\s+([a-z][a-zA-Z0-9]*[A-Z][a-zA-Z0-9]*|[a-zA-Z]+_[a-zA-Z]+)\b/g\<close>
\<close>

definition descriptiveVarPattern :: regex where
  "descriptiveVarPattern =
     seqs [WordBoundary, Group 1 declKeyword, Plus whiteSpace,
           Group 2 (Alt (seqs [Class (between CHR ''a'' CHR ''z''), Star (Class alnum),
                               Class (between CHR ''A'' CHR ''Z''), Star (Class alnum)])
                        (seqs [Plus (Class letter), lit ''_'', Plus (Class letter)])),
           WordBoundary]"

text \<open>\<^verbatim>\<open>/function\s+([a-zA-Z_$][a-zA-Z0-9_$]*)\s*\([^)]*\)\s*\{([^}]*)\}/g\<close>\<close>

definition functionPattern :: regex where
  "functionPattern =
     seqs [lit ''function'', Plus whiteSpace,
           Group 1 (Seq (Class identStart) (Star (Class identPart))),
           Star whiteSpace, lit ''('', Star (Class (\<lambda>c. \<not> oneOf '')'' c)), lit '')'',
           Star whiteSpace, lit ''{'', Group 2 (Star (Class (\<lambda>c. \<not> oneOf ''}'' c))), lit ''}'']"

text \<open>\<^verbatim>\<open>/\([^)]*\)\s*=>\s*\{([^}]*)\}/g\<close>\<close>

definition arrowFunctionPattern :: regex where
  "arrowFunctionPattern =
     seqs [lit ''('', Star (Class (\<lambda>c. \<not> oneOf '')'' c)), lit '')'', Star whiteSpace, lit ''=>'',
           Star whiteSpace, lit ''{'', Group 1 (Star (Class (\<lambda>c. \<not> oneOf ''}'' c))), lit ''}'']"

text \<open>\<^verbatim>\<open>/\n/g\<close>\<close>

definition newlinePattern :: regex where
  "newlinePattern = Class (\<lambda>c. c = newline)"

text \<open>
  The separator of countTokens: a non-empty run of code units that are white space or
  one of \<^verbatim>\<open>( ) { } [ ] ; , . + - * / = ! < > & | ^ % ? : ~\<close>.
\<close>

definition tokenSeparatorPattern :: regex where
  "tokenSeparatorPattern =
     Plus (Class (\<lambda>c. isWhiteSpace c \<or> oneOf ''(){}[];,.+-*/=!<>&|^%?:~'' c))"

text \<open>\<^verbatim>\<open>/[A-Z]/\<close>\<close>

definition upperCasePattern :: regex where
  "upperCasePattern = Class (between CHR ''A'' CHR ''Z'')"

section \<open>calculateComplexityFactor\<close>

definition calculateComplexityFactor :: "jsstring \<Rightarrow> jsstring \<Rightarrow> jsnum" where
  "calculateComplexityFactor originalCode transformedCode =
     (let originalLength = strlen originalCode;
          transformedLength = strlen transformedCode;
          lengthFactor =
            (if js_lt (num 1000) originalLength then Fin (3 / 2)
             else if js_lt (num 500) originalLength then Fin (5 / 4)
             else if js_lt (num 200) originalLength then Fin (11 / 10)
             else Fin 1);
          changePercentage =
            js_div (Math_abs (js_sub transformedLength originalLength)) originalLength;
          changeFactor =
            (if js_lt (Fin (1 / 2)) changePercentage then Fin (3 / 2)
             else if js_lt (Fin (3 / 10)) changePercentage then Fin (13 / 10)
             else if js_lt (Fin (1 / 10)) changePercentage then Fin (11 / 10)
             else Fin 1)
      in js_mul lengthFactor changeFactor)"

text \<open>The two factors of the product, named for the statements below.\<close>

definition lengthFactorOf :: "jsstring \<Rightarrow> rat" where
  "lengthFactorOf originalCode =
     (if 1000 < length originalCode then 3 / 2
      else if 500 < length originalCode then 5 / 4
      else if 200 < length originalCode then 11 / 10
      else 1)"

definition changePercentageOf :: "jsstring \<Rightarrow> jsstring \<Rightarrow> jsnum" where
  "changePercentageOf originalCode transformedCode =
     js_div (Math_abs (js_sub (strlen transformedCode) (strlen originalCode))) (strlen originalCode)"

definition changeFactorOf :: "jsstring \<Rightarrow> jsstring \<Rightarrow> rat" where
  "changeFactorOf originalCode transformedCode =
     (let changePercentage = changePercentageOf originalCode transformedCode
      in if js_lt (Fin (1 / 2)) changePercentage then 3 / 2
         else if js_lt (Fin (3 / 10)) changePercentage then 13 / 10
         else if js_lt (Fin (1 / 10)) changePercentage then 11 / 10
         else 1)"

section \<open>Text scanning helpers of scoring.js\<close>

text \<open>
  A result of type \<open>'a option\<close> is \<open>None\<close> when the call returns no value: a loop
  that does not end, or a TypeError thrown on reading a property of \<open>undefined\<close>.
\<close>

text \<open>
  countOccurrences: the loop calls \<open>indexOf\<close> from one past the last position found
  until \<open>indexOf\<close> answers \<open>-1\<close>.  (For an empty search string \<open>indexOf\<close> never answers
  \<open>-1\<close>.)
\<close>

partial_function (option) countLoop :: "jsstring \<Rightarrow> jsstring \<Rightarrow> nat \<Rightarrow> nat option \<Rightarrow> nat option" where
  "countLoop str searchStr count' position =
     (if position = None then Some count'
      else countLoop str searchStr (count' + 1) (indexOf str searchStr (the position + 1)))"

declare countLoop.simps [code]

definition countOccurrences :: "jsstring \<Rightarrow> jsstring \<Rightarrow> nat option" where
  "countOccurrences str searchStr = countLoop str searchStr 0 (indexOf str searchStr 0)"

fun indentationLoop :: "jsstring list \<Rightarrow> nat \<Rightarrow> int \<Rightarrow> nat" where
  "indentationLoop [] issues expectedIndent = issues"
| "indentationLoop (line # lines) issues expectedIndent =
     (let trimmed = trim line
      in if trimmed = [] then indentationLoop lines issues expectedIndent
         else
           (let actualIndent = int (length line) - int (length (trimStart line));
                expectedSpaces = expectedIndent * 2;
                issues' = (if actualIndent \<noteq> expectedSpaces then issues + 1 else issues);
                expectedIndent' =
                  (if endsWith trimmed (cu CHR ''{'') then expectedIndent + 1
                   else if startsWith trimmed (cu CHR ''}'') then max 0 (expectedIndent - 1)
                   else expectedIndent)
            in indentationLoop lines issues' expectedIndent'))"

definition countIndentationIssues :: "jsstring \<Rightarrow> nat" where
  "countIndentationIssues code = indentationLoop (splitOn newline code) 0 0"

fun nestingLoop :: "jsstring list \<Rightarrow> int \<Rightarrow> int \<Rightarrow> int" where
  "nestingLoop [] currentLevel maxLevel = maxLevel"
| "nestingLoop (line # lines) currentLevel maxLevel =
     (let trimmed = trim line;
          openBraces = int (length (matchOrEmpty openBracePattern trimmed));
          closeBraces = int (length (matchOrEmpty closeBracePattern trimmed));
          currentLevel' = currentLevel + (openBraces - closeBraces)
      in nestingLoop lines currentLevel' (max maxLevel currentLevel'))"

definition calculateMaxNestingLevel :: "jsstring \<Rightarrow> int" where
  "calculateMaxNestingLevel code = nestingLoop (splitOn newline code) 0 0"

text \<open>
  The names of the declarations as calculateBonusPoints extracts them:
  \<^verbatim>\<open>code.match(pattern) || []\<close>, then \<^verbatim>\<open>decl.split(/\s+/)[1]\<close> for each match.
\<close>

definition declarationNames :: "jsstring \<Rightarrow> jsstring option list" where
  "declarationNames code =
     map (\<lambda>decl. element (splitRegex whiteSpaceRun decl) 1) (matchOrEmpty varDeclarationPattern code)"

text \<open>
  \<^verbatim>\<open>names.length > 0 ? names.reduce((sum, name) => sum + name.length, 0) / names.length : 0\<close>
\<close>

definition averageLength :: "jsstring list \<Rightarrow> rat" where
  "averageLength names =
     (if 0 < length names
      then double (of_nat (sum_list (map length names)) / of_nat (length names)) else 0)"

section \<open>calculateBonusPoints\<close>

text \<open>The size reduction ratio of the minify and remove-dead-code rules.\<close>

definition sizeReductionOf :: "jsstring \<Rightarrow> jsstring \<Rightarrow> jsnum" where
  "sizeReductionOf originalCode transformedCode =
     js_div (js_sub (strlen originalCode) (strlen transformedCode)) (strlen originalCode)"

definition calculateBonusPoints :: "jsstring \<Rightarrow> jsstring \<Rightarrow> jsstring \<Rightarrow> int option" where
  "calculateBonusPoints originalCode transformedCode transformerId =
     (if transformerId = js ''format'' then
        (let originalIndentation = int (countIndentationIssues originalCode);
             transformedIndentation = int (countIndentationIssues transformedCode)
         in Some (if transformedIndentation < originalIndentation
                  then (originalIndentation - transformedIndentation) * 2 else 0))
      else if transformerId = js ''minify'' then
        (let sizeReduction = sizeReductionOf originalCode transformedCode
         in Some (if js_lt (Fin (1 / 2)) sizeReduction then 30
                  else if js_lt (Fin (3 / 10)) sizeReduction then 20
                  else if js_lt (Fin (1 / 10)) sizeReduction then 10
                  else 0))
      else if transformerId = js ''es6-to-es5'' then
        do {
          originalArrows \<leftarrow> countOccurrences originalCode (js ''=>'');
          transformedArrows \<leftarrow> countOccurrences transformedCode (js ''=>'');
          originalLet \<leftarrow> countOccurrences originalCode (js ''let '');
          originalConst \<leftarrow> countOccurrences originalCode (js ''const '');
          transformedLet \<leftarrow> countOccurrences transformedCode (js ''let '');
          transformedConst \<leftarrow> countOccurrences transformedCode (js ''const '');
          let arrowFunctionsConverted = int originalArrows - int transformedArrows;
          let letConstConverted =
            (int originalLet + int originalConst) - (int transformedLet + int transformedConst);
          Some (arrowFunctionsConverted * 5 + letConstConverted * 3)
        }
      else if transformerId = js ''jsx-to-js'' then
        do {
          originalTags \<leftarrow> countOccurrences originalCode (js ''<'');
          transformedTags \<leftarrow> countOccurrences transformedCode (js ''<'');
          let jsxElementsConverted = int originalTags - int transformedTags;
          Some (jsxElementsConverted * 5)
        }
      else if transformerId = js ''rename-variables'' then
        do {
          originalVarNames \<leftarrow> defined (declarationNames originalCode);
          transformedVarNames \<leftarrow> defined (declarationNames transformedCode);
          let originalAvgLength = averageLength originalVarNames;
          let transformedAvgLength = averageLength transformedVarNames;
          let lengthBonus =
            (if originalAvgLength < transformedAvgLength
             then (let improvement = double (transformedAvgLength - originalAvgLength)
                   in roundHalfUp (double (improvement * 10)))
             else 0);
          let originalShortVars = int (length (filter (\<lambda>name. length name = 1) originalVarNames));
          let transformedShortVars = int (length (filter (\<lambda>name. length name = 1) transformedVarNames));
          Some (lengthBonus
                + (if transformedShortVars < originalShortVars
                   then (originalShortVars - transformedShortVars) * 5 else 0))
        }
      else if transformerId = js ''flatten-control-flow'' then
        (let originalNestingLevel = calculateMaxNestingLevel originalCode;
             transformedNestingLevel = calculateMaxNestingLevel transformedCode
         in Some (if transformedNestingLevel < originalNestingLevel
                  then (originalNestingLevel - transformedNestingLevel) * 10 else 0))
      else if transformerId = js ''remove-dead-code'' then
        (let unreachableBlocksRemoved =
               int (length (matchOrEmpty unreachableIfPattern originalCode))
               - int (length (matchOrEmpty unreachableIfPattern transformedCode));
             emptyBlocksRemoved =
               int (length (matchOrEmpty emptyBlockPattern originalCode))
               - int (length (matchOrEmpty emptyBlockPattern transformedCode));
             codeReduction = sizeReductionOf originalCode transformedCode
         in Some (unreachableBlocksRemoved * 15 + emptyBlocksRemoved * 5
                  + (if js_lt (Fin (1 / 5)) codeReduction then 20
                     else if js_lt (Fin (1 / 10)) codeReduction then 10
                     else if js_lt (Fin (1 / 20)) codeReduction then 5
                     else 0)))
      else Some 0)"

section \<open>calculateScore\<close>

text \<open>
  \<open>TRANSFORMATION_POINTS\<close> is an object literal.  Reading \<open>TRANSFORMATION_POINTS[key]\<close>
  gives the value of an own property, else the value that \<open>Object.prototype\<close> has
  under that name (a function, or for \<open>__proto__\<close> the prototype object itself), else
  \<open>undefined\<close>.
\<close>

datatype jsvalue = Number jsnum | Undefined | PrototypeMember

definition TRANSFORMATION_POINTS :: "(jsstring \<times> jsnum) list" where
  "TRANSFORMATION_POINTS =
     [(js ''format'', num 10),
      (js ''minify'', num 20),
      (js ''es6-to-es5'', num 30),
      (js ''jsx-to-js'', num 40),
      (js ''rename-variables'', num 25),
      (js ''flatten-control-flow'', num 35),
      (js ''remove-dead-code'', num 30)]"

definition Object_prototype_names :: "jsstring list" where
  "Object_prototype_names =
     [js ''constructor'', js ''hasOwnProperty'', js ''isPrototypeOf'',
      js ''propertyIsEnumerable'', js ''toLocaleString'', js ''toString'', js ''valueOf'',
      js ''__proto__'', js ''__defineGetter__'', js ''__defineSetter__'',
      js ''__lookupGetter__'', js ''__lookupSetter__'']"

definition getProperty :: "(jsstring \<times> jsnum) list \<Rightarrow> jsstring \<Rightarrow> jsvalue" where
  "getProperty obj key =
     (case map_of obj key of
        Some v \<Rightarrow> Number v
      | None \<Rightarrow> if key \<in> set Object_prototype_names then PrototypeMember else Undefined)"

text \<open>Truthiness, for \<open>||\<close>; and the conversion to a number that \<open>*\<close> applies.\<close>

fun truthy :: "jsvalue \<Rightarrow> bool" where
  "truthy (Number (Fin a)) = (a \<noteq> 0)"
| "truthy (Number NaN) = False"
| "truthy (Number _) = True"
| "truthy Undefined = False"
| "truthy PrototypeMember = True"

fun ToNumber :: "jsvalue \<Rightarrow> jsnum" where
  "ToNumber (Number n) = n"
| "ToNumber Undefined = NaN"
| "ToNumber PrototypeMember = NaN"

definition basePointsOf :: "jsstring \<Rightarrow> jsvalue" where
  "basePointsOf transformerId =
     (let v = getProperty TRANSFORMATION_POINTS transformerId
      in if truthy v then v else Number (num 5))"

definition calculateScore :: "jsstring \<Rightarrow> jsstring \<Rightarrow> jsstring \<Rightarrow> jsnum option" where
  "calculateScore originalCode transformedCode transformerId =
     (let basePoints = basePointsOf transformerId;
          complexityFactor = calculateComplexityFactor originalCode transformedCode
      in do {
           bonusPoints \<leftarrow> calculateBonusPoints originalCode transformedCode transformerId;
           let totalScore =
             Math_round (js_add (js_mul (ToNumber basePoints) complexityFactor) (num bonusPoints));
           Some totalScore
         })"

section \<open>calculateReadabilityScore\<close>

text \<open>The argument of calculateReadabilityScore: a string, or any value that is not a string.\<close>

datatype jsinput = Str jsstring | NotAString

definition lineCountOf :: "jsstring \<Rightarrow> nat" where
  "lineCountOf functionBody = length (matchOrEmpty newlinePattern functionBody) + 1"

text \<open>The two loops that add 5 for every function body of fewer than 15 lines.\<close>

fun shortBodiesLoop :: "jsstring list \<Rightarrow> int \<Rightarrow> int" where
  "shortBodiesLoop [] score = score"
| "shortBodiesLoop (functionBody # bodies) score =
     shortBodiesLoop bodies (if lineCountOf functionBody < 15 then score + 5 else score)"

text \<open>
  The score before rounding and clamping, given the bodies of the functions found.
  (The array \<open>lines\<close> that the function computes first is never read.)
\<close>

definition readabilitySum :: "jsstring \<Rightarrow> jsstring list \<Rightarrow> jsstring list \<Rightarrow> int" where
  "readabilitySum code functionBodies arrowBodies =
     (let score = 100;
          evalUsage = int (length (matchOrEmpty evalPattern code));
          functionConstructorUsage = int (length (matchOrEmpty functionConstructorPattern code));
          score = score - (evalUsage + functionConstructorUsage) * 10;
          singleCharVars = matchAll singleCharVarPattern code;
          score = score - int (length singleCharVars) * 5;
          deepNestings = int (length (matchOrEmpty deepNestingPattern code));
          score = score - deepNestings * 5;
          score = (if 500 < length code then score - 5 else score);
          descriptiveVars = matchAll descriptiveVarPattern code;
          score = score + int (length descriptiveVars) * 10;
          score = shortBodiesLoop functionBodies score;
          score = shortBodiesLoop arrowBodies score
      in score)"

definition calculateReadabilityScore :: "jsinput \<Rightarrow> int option" where
  "calculateReadabilityScore input =
     (case input of
        NotAString \<Rightarrow> Some 0
      | Str code \<Rightarrow>
          if code = [] then Some 0
          else do {
            functionBodies \<leftarrow>
              defined (map (\<lambda>m. matchGroup code m 2) (matchAll functionPattern code));
            arrowBodies \<leftarrow>
              defined (map (\<lambda>m. matchGroup code m 1) (matchAll arrowFunctionPattern code));
            let score = readabilitySum code functionBodies arrowBodies;
            Some (max 0 (min 100 (roundHalfUp (of_int score))))
          })"

section \<open>getChallengeScore\<close>

definition countTokens :: "jsstring \<Rightarrow> nat" where
  "countTokens code =
     length (filter (\<lambda>token. 0 < length token) (splitRegex tokenSeparatorPattern code))"

record VariableNameStats =
  nameCount :: nat
  avgLength :: rat
  shortNames :: nat
  descriptiveNames :: nat

definition includes_str :: "jsstring \<Rightarrow> jsstring \<Rightarrow> bool" where
  "includes_str s searchStr = (indexOf s searchStr 0 \<noteq> None)"

definition analyzeVariableNames :: "jsstring \<Rightarrow> VariableNameStats option" where
  "analyzeVariableNames code =
     do {
       let declarations = matchAll varDeclarationPattern code;
       varNames \<leftarrow> defined (map (\<lambda>m. matchGroup code m 2) declarations);
       let totalLength = sum_list (map length varNames);
       let avg = (if 0 < length varNames
                  then double (of_nat totalLength / of_nat (length varNames)) else 0);
       Some \<lparr> nameCount = length varNames,
              avgLength = avg,
              shortNames = length (filter (\<lambda>name. length name \<le> 2) varNames),
              descriptiveNames =
                length (filter (\<lambda>name. 3 < length name
                                  \<and> (regexTest upperCasePattern name \<or> includes_str name (js ''_'')))
                          varNames) \<rparr>
     }"

definition longLines :: "jsstring \<Rightarrow> nat" where
  "longLines code = length (filter (\<lambda>line. 100 < length (trim line)) (splitOn newline code))"

definition assessFormatting :: "jsstring \<Rightarrow> jsstring \<Rightarrow> int" where
  "assessFormatting originalCode transformedCode =
     (let score = 0;
          originalLines = length (splitOn newline originalCode);
          transformedLines = length (splitOn newline transformedCode);
          score = (if (of_nat originalLines :: rat) * (6 / 5) < of_nat transformedLines
                   then score + 10 else score);
          originalIndentIssues = int (countIndentationIssues originalCode);
          transformedIndentIssues = int (countIndentationIssues transformedCode);
          score = (if transformedIndentIssues < originalIndentIssues
                   then score + min 15 (originalIndentIssues - transformedIndentIssues) else score);
          originalLongLines = int (longLines originalCode);
          transformedLongLines = int (longLines transformedCode);
          score = (if transformedLongLines < originalLongLines
                   then score + min 10 ((originalLongLines - transformedLongLines) * 2) else score)
      in score)"

record ScoreBreakdown =
  tokenCount :: int
  variableNameImprovement :: int
  evalRemoval :: int
  formatting :: int
  total :: int

record ChallengeScore =
  score :: int
  breakdown :: ScoreBreakdown

text \<open>The four components, in the order in which getChallengeScore computes them.\<close>

definition tokenCountComponent :: "jsstring \<Rightarrow> jsstring \<Rightarrow> int" where
  "tokenCountComponent originalCode transformedCode =
     (let originalTokens = num (int (countTokens originalCode));
          transformedTokens = num (int (countTokens transformedCode));
          tokenRatio = js_div transformedTokens originalTokens
      in if js_lt tokenRatio (Fin (4 / 5)) then 15
         else if js_le tokenRatio (Fin (6 / 5)) then 10
         else if js_lt (Fin (3 / 2)) tokenRatio then - 5
         else 0)"

definition variableNameComponent :: "VariableNameStats \<Rightarrow> VariableNameStats \<Rightarrow> int" where
  "variableNameComponent originalVarInfo transformedVarInfo =
     (let originalAvgLength = avgLength originalVarInfo;
          transformedAvgLength = avgLength transformedVarInfo
      in if originalAvgLength < transformedAvgLength
         then (let improvement = double (transformedAvgLength - originalAvgLength)
               in min 25 (roundHalfUp (double (improvement * 8))))
         else 0)"

definition evalRemovalComponent :: "jsstring \<Rightarrow> jsstring \<Rightarrow> int" where
  "evalRemovalComponent originalCode transformedCode =
     (let originalEvalCount = length (matchOrEmpty evalPattern originalCode);
          transformedEvalCount = length (matchOrEmpty evalPattern transformedCode)
      in if 0 < originalEvalCount \<and> transformedEvalCount = 0 then 20
         else if transformedEvalCount < originalEvalCount then 10
         else if 0 < transformedEvalCount then - 10
         else 0)"

definition getChallengeScore :: "jsstring \<Rightarrow> jsstring \<Rightarrow> ChallengeScore option" where
  "getChallengeScore originalCode transformedCode =
     do {
       let tokens = tokenCountComponent originalCode transformedCode;
       originalVarInfo \<leftarrow> analyzeVariableNames originalCode;
       transformedVarInfo \<leftarrow> analyzeVariableNames transformedCode;
       let names = variableNameComponent originalVarInfo transformedVarInfo;
       let evals = evalRemovalComponent originalCode transformedCode;
       let formattingScore = assessFormatting originalCode transformedCode;
       let score = 50 + (tokens + names + evals + formattingScore);
       let clamped = max 0 (min 100 (roundHalfUp (of_int score)));
       Some \<lparr> score = clamped,
              breakdown = \<lparr> tokenCount = tokens, variableNameImprovement = names,
                            evalRemoval = evals, formatting = formattingScore, total = clamped \<rparr> \<rparr>
     }"

section \<open>getLeaderboard\<close>

text \<open>
  An entry is an object with a \<open>score\<close> field and any further fields (the extension
  part of the record).
\<close>

record entry =
  score :: jsnum

text \<open>
  \<open>Array.prototype.sort\<close> is a built-in of the language, not code of the repository.
  ECMAScript requires it to be stable and to order by the comparator, where a
  comparator result of NaN counts as \<open>+0\<close>.  It is modelled as a stable insertion sort
  that moves an element behind another one exactly when the comparator is positive.
\<close>

definition sortCompare :: "('a \<Rightarrow> 'a \<Rightarrow> jsnum) \<Rightarrow> 'a \<Rightarrow> 'a \<Rightarrow> jsnum" where
  "sortCompare comparefn x y = (let v = comparefn x y in if v = NaN then Fin 0 else v)"

fun sortInsert :: "('a \<Rightarrow> 'a \<Rightarrow> jsnum) \<Rightarrow> 'a \<Rightarrow> 'a list \<Rightarrow> 'a list" where
  "sortInsert comparefn x [] = [x]"
| "sortInsert comparefn x (y # ys) =
     (if js_lt (Fin 0) (sortCompare comparefn x y) then y # sortInsert comparefn x ys
      else x # y # ys)"

definition Array_sort :: "('a \<Rightarrow> 'a \<Rightarrow> jsnum) \<Rightarrow> 'a list \<Rightarrow> 'a list" where
  "Array_sort comparefn xs = foldr (sortInsert comparefn) xs []"

definition getLeaderboard :: "'a entry_scheme list \<Rightarrow> 'a entry_scheme list" where
  "getLeaderboard entries = Array_sort (\<lambda>a b. js_sub (score b) (score a)) entries"

text \<open>The comparator of getLeaderboard, \<open>(a, b) => b.score - a.score\<close>.\<close>

abbreviation byScore :: "'a entry_scheme \<Rightarrow> 'a entry_scheme \<Rightarrow> jsnum" where
  "byScore \<equiv> (\<lambda>a b. js_sub (score b) (score a))"

text \<open>An entry list has numeric scores when no score is NaN.\<close>

definition numericScores :: "'a entry_scheme list \<Rightarrow> bool" where
  "numericScores entries = (NaN \<notin> score ` set entries)"

definition descending :: "'a entry_scheme list \<Rightarrow> bool" where
  "descending entries = sorted_wrt (\<lambda>a b. js_le (score b) (score a)) entries"

section \<open>Auxiliary notions for the statements\<close>

text \<open>
  \<open>binds n r\<close>: by the shape of the pattern alone, group \<open>n\<close> takes part in every
  match of \<open>r\<close> (it is not under a star, and if it is under an alternative then it is
  in both branches).
\<close>

fun binds :: "nat \<Rightarrow> regex \<Rightarrow> bool" where
  "binds n (Group k r) = (k = n \<or> binds n r)"
| "binds n (Seq r1 r2) = (binds n r1 \<or> binds n r2)"
| "binds n (Alt r1 r2) = (binds n r1 \<and> binds n r2)"
| "binds n _ = False"

text \<open>
  The rename-variables bonus as the specification words it: the rounded tenfold
  increase of the average name length (0 without an increase) plus five times the
  signed difference of the numbers of one-character names.  The averages, their
  difference and its tenfold are doubles, as in the code.
\<close>

definition singleCharNames :: "jsstring list \<Rightarrow> int" where
  "singleCharNames names = int (length (filter (\<lambda>name. length name = 1) names))"

definition lengthBonusOf :: "jsstring list \<Rightarrow> jsstring list \<Rightarrow> int" where
  "lengthBonusOf originalNames transformedNames =
     (if averageLength originalNames < averageLength transformedNames
      then roundHalfUp
             (double (double (averageLength transformedNames - averageLength originalNames) * 10))
      else 0)"

definition renameBonus_spec :: "jsstring list \<Rightarrow> jsstring list \<Rightarrow> int" where
  "renameBonus_spec originalNames transformedNames =
     lengthBonusOf originalNames transformedNames
     + 5 * (singleCharNames originalNames - singleCharNames transformedNames)"

text \<open>The size reduction ratio \<open>(len(original) - len(transformed)) / len(original)\<close>.\<close>

definition reductionRatio :: "jsstring \<Rightarrow> jsstring \<Rightarrow> rat" where
  "reductionRatio originalCode transformedCode =
     (of_nat (length originalCode) - of_nat (length transformedCode)) / of_nat (length originalCode)"

text \<open>The tiers of the minify bonus as the specification tabulates them.\<close>

definition minifyTier :: "rat \<Rightarrow> int" where
  "minifyTier ratio =
     (if 1 / 2 < ratio then 30 else if 3 / 10 < ratio then 20 else if 1 / 10 < ratio then 10 else 0)"

section \<open>Evaluation of the definitions on concrete strings\<close>

lemmas char_classes = js_def cu_def between_def oneOf_def isWhiteSpace_def isWordChar_def
  identStart_def identPart_def letter_def alnum_def newline_def

lemmas regex_engine = isWordAt_def atWordBoundary_def Plus_def matchAt_def matchAll_def
  globalScan.simps matchOrEmpty_def matchGroup_def substring_def splitRegex_def regexTest_def
  whiteSpace_def

lemmas regex_patterns = declKeyword_def varDeclarationPattern_def whiteSpaceRun_def
  unreachableIfPattern_def emptyBlockPattern_def openBracePattern_def closeBracePattern_def
  evalPattern_def functionConstructorPattern_def singleCharVarPattern_def notBrace_def
  deepNestingPattern_def descriptiveVarPattern_def functionPattern_def arrowFunctionPattern_def
  newlinePattern_def tokenSeparatorPattern_def upperCasePattern_def

lemma floor_rat_numerals:
  "\<lfloor>numeral a / numeral b :: rat\<rfloor> = numeral a div numeral b"
  "\<lfloor>- (numeral a / numeral b) :: rat\<rfloor> = - numeral a div numeral b"
  "\<lfloor>1 / numeral b :: rat\<rfloor> = 1 div numeral b"
  using floor_divide_of_int_eq [of "numeral a" "numeral b", where ?'a = rat]
    floor_divide_of_int_eq [of "- numeral a" "numeral b", where ?'a = rat]
    floor_divide_of_int_eq [of 1 "numeral b", where ?'a = rat]
  by simp_all

lemmas double_eval = double_def ulpOf_def floorLog2_def roundTiesToEven_def ilog2.simps
  floor_rat_numerals

lemma roundHalfUp_of_int: "roundHalfUp (of_int k) = k"
proof -
  have "\<lfloor>(of_int k :: rat) + 1 / 2\<rfloor> = k"
    by (rule floor_unique) simp_all
  then show ?thesis by (simp add: roundHalfUp_def)
qed

lemma roundHalfUp_fraction:
  assumes "l \<noteq> 0"
  shows "roundHalfUp (of_int k / of_int l) = (2 * k + l) div (2 * l)"
proof -
  have "(of_int k :: rat) / of_int l + 1 / 2 = of_int (2 * k + l) / of_int (2 * l)"
    using assms by (simp add: field_simps)
  then show ?thesis
    unfolding roundHalfUp_def by (simp only: floor_divide_of_int_eq)
qed

lemma roundHalfUp_numerals:
  "roundHalfUp 0 = 0"
  "roundHalfUp 1 = 1"
  "roundHalfUp (numeral a) = numeral a"
  "roundHalfUp (- numeral a) = - numeral a"
  "roundHalfUp (numeral a / numeral b) = (2 * numeral a + numeral b) div (2 * numeral b)"
  "roundHalfUp (- (numeral a / numeral b)) = (2 * (- numeral a) + numeral b) div (2 * numeral b)"
  "roundHalfUp (1 / numeral b) = (2 + numeral b) div (2 * numeral b)"
  using roundHalfUp_of_int [of 0] roundHalfUp_of_int [of 1] roundHalfUp_of_int [of "numeral a"]
    roundHalfUp_of_int [of "- numeral a"]
    roundHalfUp_fraction [of "numeral b" "numeral a"]
    roundHalfUp_fraction [of "numeral b" "- numeral a"]
    roundHalfUp_fraction [of "numeral b" 1]
  by simp_all

section \<open>Properties of calculateComplexityFactor\<close>

lemma strlen_Fin: "strlen s = Fin (of_nat (length s))"
  by (simp add: strlen_def num_def)

lemma calculateComplexityFactor_product:
  "calculateComplexityFactor originalCode transformedCode =
     Fin (lengthFactorOf originalCode * changeFactorOf originalCode transformedCode)"
  by (simp add: calculateComplexityFactor_def lengthFactorOf_def changeFactorOf_def
      changePercentageOf_def Let_def strlen_Fin num_def)

lemma lengthFactorOf_cases:
  "lengthFactorOf originalCode \<in> {1, 11 / 10, 5 / 4, 3 / 2}"
  by (simp add: lengthFactorOf_def)

lemma changeFactorOf_cases:
  "changeFactorOf originalCode transformedCode \<in> {1, 11 / 10, 13 / 10, 3 / 2}"
  by (simp add: changeFactorOf_def Let_def)

lemma factor_product_bounds:
  fixes a b :: rat
  assumes "a \<in> {1, 11 / 10, 5 / 4, 3 / 2}" and "b \<in> {1, 11 / 10, 13 / 10, 3 / 2}"
  shows "1 \<le> a * b \<and> a * b \<le> 9 / 4"
proof -
  from assms have a: "1 \<le> a" "a \<le> 3 / 2" and b: "1 \<le> b" "b \<le> 3 / 2"
    by auto
  have "1 * 1 \<le> a * b"
    using a b by (intro mult_mono) auto
  moreover have "a * b \<le> (3 / 2) * (3 / 2)"
    using a b by (intro mult_mono) auto
  ultimately show ?thesis by simp
qed

text \<open>
  C7. For every pair of strings, the empty ones included, calculateComplexityFactor
  returns a finite number between 1.0 and 2.25: the product of a length factor in
  {1.0, 1.1, 1.25, 1.5}, chosen by the thresholds 1000, 500, 200 on the length of the
  original (highest first), and of a change factor in {1.0, 1.1, 1.3, 1.5}, chosen by
  the thresholds 0.5, 0.3, 0.1 on the change ratio.
\<close>

theorem complexityFactor_range:
  "\<exists>lf cf. calculateComplexityFactor originalCode transformedCode = Fin (lf * cf)
     \<and> 1 \<le> lf * cf \<and> lf * cf \<le> 9 / 4
     \<and> lf \<in> {1, 11 / 10, 5 / 4, 3 / 2}
     \<and> lf = (if 1000 < length originalCode then 3 / 2
             else if 500 < length originalCode then 5 / 4
             else if 200 < length originalCode then 11 / 10 else 1)
     \<and> cf \<in> {1, 11 / 10, 13 / 10, 3 / 2}
     \<and> cf = (if js_lt (Fin (1 / 2)) (changePercentageOf originalCode transformedCode) then 3 / 2
             else if js_lt (Fin (3 / 10)) (changePercentageOf originalCode transformedCode) then 13 / 10
             else if js_lt (Fin (1 / 10)) (changePercentageOf originalCode transformedCode) then 11 / 10
             else 1)"
proof (intro exI conjI)
  show "calculateComplexityFactor originalCode transformedCode =
      Fin (lengthFactorOf originalCode * changeFactorOf originalCode transformedCode)"
    by (rule calculateComplexityFactor_product)
  show "lengthFactorOf originalCode \<in> {1, 11 / 10, 5 / 4, 3 / 2}"
    by (rule lengthFactorOf_cases)
  show "changeFactorOf originalCode transformedCode \<in> {1, 11 / 10, 13 / 10, 3 / 2}"
    by (rule changeFactorOf_cases)
  show "1 \<le> lengthFactorOf originalCode * changeFactorOf originalCode transformedCode"
    using factor_product_bounds [OF lengthFactorOf_cases changeFactorOf_cases] by blast
  show "lengthFactorOf originalCode * changeFactorOf originalCode transformedCode \<le> 9 / 4"
    using factor_product_bounds [OF lengthFactorOf_cases changeFactorOf_cases] by blast
  show "lengthFactorOf originalCode =
      (if 1000 < length originalCode then 3 / 2
       else if 500 < length originalCode then 5 / 4
       else if 200 < length originalCode then 11 / 10 else 1)"
    by (simp add: lengthFactorOf_def)
  show "changeFactorOf originalCode transformedCode =
      (if js_lt (Fin (1 / 2)) (changePercentageOf originalCode transformedCode) then 3 / 2
       else if js_lt (Fin (3 / 10)) (changePercentageOf originalCode transformedCode) then 13 / 10
       else if js_lt (Fin (1 / 10)) (changePercentageOf originalCode transformedCode) then 11 / 10
       else 1)"
    by (simp add: changeFactorOf_def Let_def)
qed

lemma changePercentageOf_empty:
  "changePercentageOf [] transformedCode = (if transformedCode = [] then NaN else PosInf)"
  by (simp add: changePercentageOf_def strlen_Fin)

text \<open>
  C2 (as the code has it). There is no guard on the division by the length of the
  original.  When the original is empty the change ratio is NaN if the transformed
  string is empty too, and +Infinity otherwise; it is not treated as 0.  The factor
  itself is finite all the same: 1.0 when both strings are empty (every comparison
  with NaN fails) and 1.5 when only the original is empty (+Infinity exceeds 0.5).
\<close>

theorem complexityFactor_empty_original:
  "length originalCode = 0 \<Longrightarrow>
     changePercentageOf originalCode transformedCode
       = (if transformedCode = [] then NaN else PosInf)
     \<and> calculateComplexityFactor originalCode transformedCode
       = (if transformedCode = [] then Fin 1 else Fin (3 / 2))"
  by (simp add: calculateComplexityFactor_product lengthFactorOf_def changeFactorOf_def
      changePercentageOf_empty Let_def)

theorem complexityFactor_empty_original_witness:
  "length ([] :: jsstring) = 0
     \<and> changePercentageOf [] (js ''a'') = PosInf
     \<and> calculateComplexityFactor [] (js ''a'') = Fin (3 / 2)"
  using complexityFactor_empty_original [of "[]" "js ''a''"] by (simp add: js_def)

text \<open>
  The claim C2 as stated fails: with an empty original and the one-character
  transformed string "a" the factor is 1.5, not 1.0.
\<close>

theorem complexityFactor_empty_original_counterexample:
  "calculateComplexityFactor (js '''') (js ''a'') \<noteq> Fin 1"
  by (simp add: calculateComplexityFactor_product lengthFactorOf_def changeFactorOf_def
      changePercentageOf_def strlen_Fin Let_def js_def)

section \<open>Properties of getLeaderboard\<close>

lemma mset_sortInsert: "mset (sortInsert comparefn x ys) = add_mset x (mset ys)"
  by (induction ys) auto

lemma mset_Array_sort: "mset (Array_sort comparefn xs) = mset xs"
  by (induction xs) (auto simp: Array_sort_def mset_sortInsert)

lemma set_sortInsert: "set (sortInsert comparefn x ys) = insert x (set ys)"
  using mset_sortInsert [of comparefn x ys] by (metis set_mset_add_mset_insert set_mset_mset)

lemma set_Array_sort: "set (Array_sort comparefn xs) = set xs"
  using mset_Array_sort [of comparefn xs] by (metis set_mset_mset)

lemma js_le_trans: "js_le a b \<Longrightarrow> js_le b c \<Longrightarrow> js_le a c"
  by (cases a; cases b; cases c) auto

lemma js_le_refl: "a \<noteq> NaN \<Longrightarrow> js_le a a"
  by (cases a) auto

lemma js_le_antisym: "js_le a b \<Longrightarrow> js_le b a \<Longrightarrow> a = b"
  by (cases a; cases b) auto

text \<open>The comparator \<open>b.score - a.score\<close> is positive exactly when \<open>a\<close> scores less.\<close>

lemma byScore_positive:
  "a \<noteq> NaN \<Longrightarrow> b \<noteq> NaN \<Longrightarrow>
     js_lt (Fin 0) (let v = js_sub b a in if v = NaN then Fin 0 else v) = (\<not> js_le b a)"
  by (cases a; cases b) (auto simp: Let_def)

lemma byScore_positive_neq:
  "js_lt (Fin 0) (let v = js_sub b a in if v = NaN then Fin 0 else v) \<Longrightarrow> a \<noteq> b"
  by (cases a; cases b) (auto simp: Let_def)

lemma descending_sortInsert:
  assumes "score x \<noteq> NaN" and "NaN \<notin> score ` set ys"
    and "sorted_wrt (\<lambda>a b. js_le (score b) (score a)) ys"
  shows "sorted_wrt (\<lambda>a b. js_le (score b) (score a)) (sortInsert byScore x ys)"
  using assms
proof (induction ys)
  case Nil
  then show ?case by simp
next
  case (Cons y ys)
  have y: "score y \<noteq> NaN" using Cons.prems(2) by auto
  show ?case
  proof (cases "js_lt (Fin 0) (sortCompare byScore x y)")
    case True
    then have xy: "\<not> js_le (score y) (score x)"
      using byScore_positive [OF Cons.prems(1) y] by (simp add: sortCompare_def)
    then have "js_le (score x) (score y)"
      using Cons.prems(1) y by (cases "score x"; cases "score y") auto
    moreover have "sorted_wrt (\<lambda>a b. js_le (score b) (score a)) (sortInsert byScore x ys)"
      using Cons by auto
    ultimately show ?thesis
      using True Cons.prems(3) by (auto simp: set_sortInsert)
  next
    case False
    then have xy: "js_le (score y) (score x)"
      using byScore_positive [OF Cons.prems(1) y] by (simp add: sortCompare_def)
    have "js_le (score z) (score x)" if "z \<in> set ys" for z
      using that Cons.prems(3) xy js_le_trans by auto
    then show ?thesis
      using False Cons.prems(3) xy by auto
  qed
qed

lemma descending_Array_sort:
  "NaN \<notin> score ` set xs \<Longrightarrow>
     sorted_wrt (\<lambda>a b. js_le (score b) (score a)) (Array_sort byScore xs)"
proof (induction xs)
  case Nil
  then show ?case by (simp add: Array_sort_def)
next
  case (Cons x xs)
  have "sorted_wrt (\<lambda>a b. js_le (score b) (score a)) (sortInsert byScore x (Array_sort byScore xs))"
    using Cons by (intro descending_sortInsert) (auto simp: set_Array_sort)
  then show ?case by (simp add: Array_sort_def)
qed

lemma stable_sortInsert:
  "filter (\<lambda>e. score e = k) (sortInsert byScore x ys) = filter (\<lambda>e. score e = k) (x # ys)"
proof (induction ys)
  case Nil
  then show ?case by simp
next
  case (Cons y ys)
  show ?case
  proof (cases "js_lt (Fin 0) (sortCompare byScore x y)")
    case True
    then have "score x \<noteq> score y"
      using byScore_positive_neq [of "score y" "score x"] by (simp add: sortCompare_def)
    with True Cons show ?thesis by auto
  next
    case False
    then show ?thesis by simp
  qed
qed

lemma stable_Array_sort:
  "filter (\<lambda>e. score e = k) (Array_sort byScore xs) = filter (\<lambda>e. score e = k) xs"
proof (induction xs)
  case Nil
  then show ?case by (simp add: Array_sort_def)
next
  case (Cons x xs)
  have "filter (\<lambda>e. score e = k) (Array_sort byScore (x # xs))
      = filter (\<lambda>e. score e = k) (x # Array_sort byScore xs)"
    by (simp add: Array_sort_def stable_sortInsert)
  with Cons show ?case by simp
qed

lemma Array_sort_descending_id:
  "NaN \<notin> score ` set xs \<Longrightarrow> sorted_wrt (\<lambda>a b. js_le (score b) (score a)) xs \<Longrightarrow>
     Array_sort byScore xs = xs"
proof (induction xs)
  case Nil
  then show ?case by (simp add: Array_sort_def)
next
  case (Cons x xs)
  then have IH: "Array_sort byScore xs = xs" by simp
  have "sortInsert byScore x xs = x # xs"
  proof (cases xs)
    case Nil
    then show ?thesis by simp
  next
    case (Cons y ys)
    have "js_le (score y) (score x)" using Cons.prems(2) Cons by simp
    moreover have "score x \<noteq> NaN" "score y \<noteq> NaN" using Cons.prems(1) Cons by auto
    ultimately have "\<not> js_lt (Fin 0) (sortCompare byScore x y)"
      using byScore_positive [of "score x" "score y"] by (simp add: sortCompare_def)
    then show ?thesis using Cons by simp
  qed
  then show ?case using IH by (simp add: Array_sort_def)
qed

text \<open>
  C9. For every sequence of entries with numeric scores (no score is NaN),
  getLeaderboard returns a permutation of the input, sorted by score in descending
  order; entries of equal score keep their relative input order; and an input that is
  already in descending order is returned unchanged.
\<close>

theorem getLeaderboard_sorted_stable:
  "numericScores entries \<Longrightarrow>
     mset (getLeaderboard entries) = mset entries
     \<and> descending (getLeaderboard entries)
     \<and> filter (\<lambda>e. score e = k) (getLeaderboard entries) = filter (\<lambda>e. score e = k) entries
     \<and> (if descending entries then getLeaderboard entries = entries else True)"
  by (simp add: numericScores_def descending_def getLeaderboard_def mset_Array_sort
      descending_Array_sort stable_Array_sort Array_sort_descending_id)

theorem getLeaderboard_sorted_stable_witness:
  "numericScores [\<lparr>score = num 5\<rparr>, \<lparr>score = num 20\<rparr>, \<lparr>score = num 10\<rparr>]
     \<and> getLeaderboard [\<lparr>score = num 5\<rparr>, \<lparr>score = num 20\<rparr>, \<lparr>score = num 10\<rparr>]
         = [\<lparr>score = num 20\<rparr>, \<lparr>score = num 10\<rparr>, \<lparr>score = num 5\<rparr>]
     \<and> descending (getLeaderboard [\<lparr>score = num 5\<rparr>, \<lparr>score = num 20\<rparr>, \<lparr>score = num 10\<rparr>])"
  using getLeaderboard_sorted_stable
    [of "[\<lparr>score = num 5\<rparr>, \<lparr>score = num 20\<rparr>, \<lparr>score = num 10\<rparr>]" "num 5"]
  by (simp add: numericScores_def getLeaderboard_def Array_sort_def sortCompare_def num_def)

section \<open>Properties of the matcher\<close>

lemma repeatMatcher_nonempty: "repeatMatcher m n x \<noteq> []"
  by (cases n) simp_all

lemma repeatMatcher_Suc_cases:
  assumes "y \<in> set (repeatMatcher m (Suc n) x)"
  obtains "y = x" | z where "z \<in> set (m x)" and "y \<in> set (repeatMatcher m n z)"
  using assms by auto

lemma repeatMatcher_advances:
  assumes step: "\<And>x y. y \<in> set (m x) \<Longrightarrow> fst x \<le> fst y"
  shows "y \<in> set (repeatMatcher m n x) \<Longrightarrow> fst x \<le> fst y"
proof (induction n arbitrary: x)
  case 0
  then show ?case by simp
next
  case (Suc n)
  from Suc.prems show ?case
  proof (cases rule: repeatMatcher_Suc_cases)
    case 1
    then show ?thesis by simp
  next
    case (2 z)
    then have "fst x \<le> fst z" and "fst z \<le> fst y"
      using step Suc.IH by blast+
    then show ?thesis by simp
  qed
qed

lemma repeatMatcher_bounded:
  assumes step: "\<And>x y. y \<in> set (m x) \<Longrightarrow> fst x \<le> b \<Longrightarrow> fst y \<le> b"
  shows "y \<in> set (repeatMatcher m n x) \<Longrightarrow> fst x \<le> b \<Longrightarrow> fst y \<le> b"
proof (induction n arbitrary: x)
  case 0
  then show ?case by simp
next
  case (Suc n)
  from Suc.prems(1) show ?case
  proof (cases rule: repeatMatcher_Suc_cases)
    case 1
    then show ?thesis using Suc.prems(2) by simp
  next
    case (2 z)
    then have "fst z \<le> b"
      using step Suc.prems(2) by blast
    then show ?thesis using 2 Suc.IH by blast
  qed
qed

lemma matcher_advances: "y \<in> set (matcher r s x) \<Longrightarrow> fst x \<le> fst y"
proof (induction r arbitrary: x y)
  case (Class p)
  then show ?case by (auto split: if_splits)
next
  case (Seq r1 r2)
  then obtain z where "z \<in> set (matcher r1 s x)" and "y \<in> set (matcher r2 s z)"
    by auto
  then have "fst x \<le> fst z" and "fst z \<le> fst y"
    using Seq.IH by blast+
  then show ?case by simp
next
  case (Alt r1 r2)
  then have "y \<in> set (matcher r1 s x) \<or> y \<in> set (matcher r2 s x)"
    by simp
  then show ?case using Alt.IH by blast
next
  case (Star r)
  then show ?case using repeatMatcher_advances [of "matcher r s"] by simp
next
  case (Group n r)
  then obtain z where "z \<in> set (matcher r s x)" and "fst y = fst z"
    by auto
  then show ?case using Group.IH by fastforce
next
  case WordBoundary
  then show ?case by (auto split: if_splits)
next
  case Empty
  then show ?case by simp
qed

lemma matcher_bounded:
  "y \<in> set (matcher r s x) \<Longrightarrow> fst x \<le> length s \<Longrightarrow> fst y \<le> length s"
proof (induction r arbitrary: x y)
  case (Class p)
  then show ?case by (auto split: if_splits)
next
  case (Seq r1 r2)
  then obtain z where "z \<in> set (matcher r1 s x)" and "y \<in> set (matcher r2 s z)"
    by auto
  then show ?case using Seq.IH Seq.prems(2) by blast
next
  case (Alt r1 r2)
  then have "y \<in> set (matcher r1 s x) \<or> y \<in> set (matcher r2 s x)"
    by simp
  then show ?case using Alt.IH Alt.prems(2) by blast
next
  case (Star r)
  then show ?case using repeatMatcher_bounded [of "matcher r s" "length s"] by simp
next
  case (Group n r)
  then obtain z where "z \<in> set (matcher r s x)" and "fst y = fst z"
    by auto
  then show ?case using Group.IH Group.prems(2) by fastforce
next
  case WordBoundary
  then show ?case by (auto split: if_splits)
next
  case Empty
  then show ?case by simp
qed

text \<open>
  The bound on the iterations of a star is exact: any larger bound gives the same list of
  matches.
\<close>

lemma repeatMatcher_at_end:
  assumes adv: "\<And>x y. y \<in> set (m x) \<Longrightarrow> fst x \<le> fst y"
    and bnd: "\<And>x y. y \<in> set (m x) \<Longrightarrow> fst x \<le> b \<Longrightarrow> fst y \<le> b"
    and x: "fst x = b"
  shows "repeatMatcher m n x = [x]"
proof (cases n)
  case 0
  then show ?thesis by simp
next
  case (Suc k)
  have "fst y = fst x" if "y \<in> set (m x)" for y
    using adv [OF that] bnd [OF that] x by simp
  then have "filter (\<lambda>y. fst y \<noteq> fst x) (m x) = []"
    by (simp add: filter_empty_conv)
  then show ?thesis using Suc by simp
qed

lemma repeatMatcher_fuel:
  assumes adv: "\<And>x y. y \<in> set (m x) \<Longrightarrow> fst x \<le> fst y"
    and bnd: "\<And>x y. y \<in> set (m x) \<Longrightarrow> fst x \<le> b \<Longrightarrow> fst y \<le> b"
  shows "fst x \<le> b \<Longrightarrow> b - fst x \<le> n1 \<Longrightarrow> b - fst x \<le> n2 \<Longrightarrow>
           repeatMatcher m n1 x = repeatMatcher m n2 x"
proof -
  have at_end: "repeatMatcher m n z = [z]" if "fst z = b" for n z
  proof (rule repeatMatcher_at_end [where b = b])
    show "\<And>x y. y \<in> set (m x) \<Longrightarrow> fst x \<le> fst y" by (rule adv)
    show "\<And>x y. y \<in> set (m x) \<Longrightarrow> fst x \<le> b \<Longrightarrow> fst y \<le> b" by (rule bnd)
    show "fst z = b" by (rule that)
  qed
  show "fst x \<le> b \<Longrightarrow> b - fst x \<le> n1 \<Longrightarrow> b - fst x \<le> n2 \<Longrightarrow>
           repeatMatcher m n1 x = repeatMatcher m n2 x"
  proof (induction n1 arbitrary: n2 x)
  case 0
  then have "fst x = b" by simp
  then have "repeatMatcher m 0 x = [x]" and "repeatMatcher m n2 x = [x]"
    by (rule at_end)+
  then show ?case by (simp only:)
next
  case (Suc k1)
  show ?case
  proof (cases n2)
    case 0
    then have "fst x = b" using Suc.prems by simp
    then have "repeatMatcher m (Suc k1) x = [x]" and "repeatMatcher m n2 x = [x]"
      by (rule at_end)+
    then show ?thesis by (simp only:)
  next
    case (Suc k2)
    have "repeatMatcher m k1 y = repeatMatcher m k2 y"
      if "y \<in> set (filter (\<lambda>y. fst y \<noteq> fst x) (m x))" for y
    proof -
      from that have y: "y \<in> set (m x)" "fst y \<noteq> fst x" by simp_all
      then have "fst x < fst y" "fst y \<le> b"
        using adv [OF y(1)] bnd [OF y(1)] Suc.prems(1) by simp_all
      then show ?thesis
        using Suc.prems Suc by (intro Suc.IH) simp_all
    qed
    then have "map (repeatMatcher m k1) (filter (\<lambda>y. fst y \<noteq> fst x) (m x))
        = map (repeatMatcher m k2) (filter (\<lambda>y. fst y \<noteq> fst x) (m x))"
      by (rule map_cong [OF refl])
    then show ?thesis unfolding Suc repeatMatcher.simps by (simp only:)
  qed
  qed
qed

lemma Star_fuel:
  "fst x \<le> length s \<Longrightarrow> length s - fst x \<le> n \<Longrightarrow>
     repeatMatcher (matcher r s) n x = matcher (Star r) s x"
  using repeatMatcher_fuel [of "matcher r s" "length s" x n "length s - fst x"]
    matcher_advances matcher_bounded
  by simp

lemma matchAt_member: "matchAt r s i = Some y \<Longrightarrow> y \<in> set (matcher r s (i, []))"
  by (auto simp: matchAt_def split: list.splits)

lemma globalScan_member:
  "m \<in> set (globalScan r s lastIndex i rest) \<Longrightarrow> matchAt r s (fst m) = Some (snd m)"
proof (induction rest arbitrary: lastIndex i)
  case Nil
  then show ?case
    by (subst (asm) globalScan.simps) (auto split: if_splits option.splits)
next
  case (Cons c rest)
  from Cons.prems show ?case
    by (subst (asm) globalScan.simps) (auto split: if_splits option.splits dest: Cons.IH)
qed

lemma matchAll_member:
  "m \<in> set (matchAll r s) \<Longrightarrow> snd m \<in> set (matcher r s (fst m, []))"
  unfolding matchAll_def by (blast dest: globalScan_member matchAt_member)

lemma defined_map:
  "(\<And>m. m \<in> set ms \<Longrightarrow> f m \<noteq> None) \<Longrightarrow> defined (map f ms) = Some (map (\<lambda>m. the (f m)) ms)"
proof (induction ms)
  case Nil
  then show ?case by simp
next
  case (Cons a ms)
  then obtain v where "f a = Some v" by fastforce
  moreover have "defined (map f ms) = Some (map (\<lambda>m. the (f m)) ms)"
    using Cons by simp
  ultimately show ?case by simp
qed

lemma repeatMatcher_keeps:
  assumes step: "\<And>x y. y \<in> set (m x) \<Longrightarrow> map_of (snd x) n \<noteq> None \<Longrightarrow> map_of (snd y) n \<noteq> None"
  shows "y \<in> set (repeatMatcher m k x) \<Longrightarrow> map_of (snd x) n \<noteq> None \<Longrightarrow> map_of (snd y) n \<noteq> None"
proof (induction k arbitrary: x)
  case 0
  then show ?case by simp
next
  case (Suc k)
  from Suc.prems(1) show ?case
  proof (cases rule: repeatMatcher_Suc_cases)
    case 1
    then show ?thesis using Suc.prems(2) by simp
  next
    case (2 z)
    then have "map_of (snd z) n \<noteq> None"
      using step Suc.prems(2) by blast
    then show ?thesis using 2 Suc.IH by blast
  qed
qed

lemma matcher_keeps:
  "y \<in> set (matcher r s x) \<Longrightarrow> map_of (snd x) n \<noteq> None \<Longrightarrow> map_of (snd y) n \<noteq> None"
proof (induction r arbitrary: x y)
  case (Class p)
  then show ?case by (auto split: if_splits)
next
  case (Seq r1 r2)
  then obtain z where "z \<in> set (matcher r1 s x)" and "y \<in> set (matcher r2 s z)"
    by auto
  then show ?case using Seq.IH Seq.prems(2) by blast
next
  case (Alt r1 r2)
  then have "y \<in> set (matcher r1 s x) \<or> y \<in> set (matcher r2 s x)"
    by simp
  then show ?case using Alt.IH Alt.prems(2) by blast
next
  case (Star r)
  then show ?case using repeatMatcher_keeps [of "matcher r s" n] by simp
next
  case (Group k r)
  then obtain z where z: "z \<in> set (matcher r s x)" and y: "snd y = (k, fst x, fst z) # snd z"
    by auto
  have "map_of (snd z) n \<noteq> None"
    using z Group.IH Group.prems(2) by blast
  then show ?case using y by simp
next
  case WordBoundary
  then show ?case by (auto split: if_splits)
next
  case Empty
  then show ?case by simp
qed

lemma matcher_binds:
  "binds n r \<Longrightarrow> y \<in> set (matcher r s x) \<Longrightarrow> map_of (snd y) n \<noteq> None"
proof (induction r arbitrary: x y)
  case (Seq r1 r2)
  then obtain z where z: "z \<in> set (matcher r1 s x)" and y: "y \<in> set (matcher r2 s z)"
    by auto
  show ?case
  proof (cases "binds n r1")
    case True
    then have "map_of (snd z) n \<noteq> None" using Seq.IH(1) z by blast
    then show ?thesis using y matcher_keeps by blast
  next
    case False
    then have "binds n r2" using Seq.prems(1) by simp
    then show ?thesis using Seq.IH(2) y by blast
  qed
next
  case (Alt r1 r2)
  then have "y \<in> set (matcher r1 s x) \<or> y \<in> set (matcher r2 s x)"
    by simp
  moreover have "binds n r1" and "binds n r2"
    using Alt.prems(1) by simp_all
  ultimately show ?case using Alt.IH by blast
next
  case (Group k r)
  then obtain z where z: "z \<in> set (matcher r s x)" and y: "snd y = (k, fst x, fst z) # snd z"
    by auto
  show ?case
  proof (cases "k = n")
    case True
    then show ?thesis using y by simp
  next
    case False
    then have "map_of (snd z) n \<noteq> None" using Group.IH Group.prems(1) z by auto
    then show ?thesis using y by simp
  qed
qed simp_all

lemma matchGroup_defined:
  assumes "binds n r" and "m \<in> set (matchAll r s)"
  shows "matchGroup s m n \<noteq> None"
proof -
  have "map_of (snd (snd m)) n \<noteq> None"
    using assms matchAll_member matcher_binds by blast
  then show ?thesis by (auto simp: matchGroup_def)
qed

lemma groups_defined:
  "binds n r \<Longrightarrow> \<exists>bodies. defined (map (\<lambda>m. matchGroup s m n) (matchAll r s)) = Some bodies"
  using defined_map [of "matchAll r s" "\<lambda>m. matchGroup s m n"] matchGroup_defined by blast

lemma binds_patterns:
  "binds 2 varDeclarationPattern" "binds 2 functionPattern" "binds 1 arrowFunctionPattern"
  by (simp_all add: varDeclarationPattern_def functionPattern_def arrowFunctionPattern_def)

lemma analyzeVariableNames_returns: "\<exists>info. analyzeVariableNames code = Some info"
  using groups_defined [OF binds_patterns(1), of code]
  by (auto simp: analyzeVariableNames_def Let_def)


lemma Seq_member:
  "y \<in> set (matcher (Seq r1 r2) s x) \<longleftrightarrow> (\<exists>z. z \<in> set (matcher r1 s x) \<and> y \<in> set (matcher r2 s z))"
  by auto

lemma Class_member:
  "y \<in> set (matcher (Class p) s x) \<longleftrightarrow>
     (fst x < length s \<and> p (s ! fst x)) \<and> y = (fst x + 1, snd x)"
  by (cases x) auto

lemma WordBoundary_member:
  "y \<in> set (matcher WordBoundary s x) \<longleftrightarrow> atWordBoundary s (fst x) \<and> y = x"
  by (cases x) auto

lemma Group_member:
  "y \<in> set (matcher (Group n r) s x) \<longleftrightarrow>
     (\<exists>z. z \<in> set (matcher r s x) \<and> y = (fst z, (n, fst x, fst z) # snd z))"
  by (cases x) (force simp: image_iff)

lemma Alt_member:
  "y \<in> set (matcher (Alt r1 r2) s x) \<longleftrightarrow> y \<in> set (matcher r1 s x) \<or> y \<in> set (matcher r2 s x)"
  by simp

lemma lit_member:
  "y \<in> set (matcher (lit cs) s x) \<Longrightarrow>
     fst y = fst x + length cs \<and> fst y \<le> max (fst x) (length s)
     \<and> (\<forall>j < length cs. s ! (fst x + j) = cu (cs ! j))"
proof (induction cs arbitrary: x rule: lit.induct)
  case 1
  then show ?case by simp
next
  case (2 c)
  then show ?case by (simp only: lit.simps Class_member) simp
next
  case (3 c d cs)
  from "3.prems" obtain z where z: "z \<in> set (matcher (Class (\<lambda>x. x = cu c)) s x)"
    and y: "y \<in> set (matcher (lit (d # cs)) s z)"
    by (simp only: lit.simps Seq_member) blast
  from z have zx: "fst z = fst x + 1" "fst x < length s" "s ! fst x = cu c"
    by (simp_all only: Class_member) simp_all
  from "3.IH" [OF y] have IH: "fst y = fst z + length (d # cs)"
    "fst y \<le> max (fst z) (length s)"
    "\<forall>j < length (d # cs). s ! (fst z + j) = cu ((d # cs) ! j)"
    by blast+
  have "s ! (fst x + j) = cu ((c # d # cs) ! j)" if "j < length (c # d # cs)" for j
  proof (cases j)
    case 0
    then show ?thesis using zx by simp
  next
    case (Suc j')
    then have "j' < length (d # cs)" using that by simp
    then have "s ! (fst z + j') = cu ((d # cs) ! j')" using IH(3) by blast
    then show ?thesis using Suc zx by simp
  qed
  then show ?case using IH zx by auto
qed

lemma keyword_not_whiteSpace:
  "list_all (\<lambda>c. \<not> isWhiteSpace (cu c)) ''var''"
  "list_all (\<lambda>c. \<not> isWhiteSpace (cu c)) ''let''"
  "list_all (\<lambda>c. \<not> isWhiteSpace (cu c)) ''const''"
  by (simp_all add: isWhiteSpace_def cu_def)

lemma lit_no_whiteSpace:
  assumes "y \<in> set (matcher (lit cs) s x)" and "list_all (\<lambda>c. \<not> isWhiteSpace (cu c)) cs"
    and "j < length cs"
  shows "\<not> isWhiteSpace (s ! (fst x + j))"
  using lit_member [OF assms(1)] assms(2,3) by (simp add: list_all_length)

lemma lit_shape:
  assumes "z \<in> set (matcher (lit cs) s x)" and "list_all (\<lambda>c. \<not> isWhiteSpace (cu c)) cs"
  shows "\<exists>k. fst z = fst x + k \<and> (\<forall>j<k. \<not> isWhiteSpace (s ! (fst x + j)))"
proof (intro exI conjI allI impI)
  show "fst z = fst x + length cs"
    using lit_member [OF assms(1)] by blast
  fix j
  assume "j < length cs"
  then show "\<not> isWhiteSpace (s ! (fst x + j))"
    using lit_no_whiteSpace [OF assms] by blast
qed

lemma declKeyword_shape:
  assumes "z \<in> set (matcher declKeyword s x)"
  shows "\<exists>k. fst z = fst x + k \<and> (\<forall>j<k. \<not> isWhiteSpace (s ! (fst x + j)))"
proof -
  from assms have "z \<in> set (matcher (lit ''var'') s x)
      \<or> z \<in> set (matcher (lit ''let'') s x) \<or> z \<in> set (matcher (lit ''const'') s x)"
    by (simp only: declKeyword_def Alt_member)
  then show ?thesis
    using lit_shape keyword_not_whiteSpace by blast
qed

lemma Plus_whiteSpace_member:
  assumes "z \<in> set (matcher (Plus whiteSpace) s x)"
  shows "fst x < length s \<and> isWhiteSpace (s ! fst x) \<and> fst x < fst z"
proof -
  from assms have "\<exists>w. w \<in> set (matcher (Class isWhiteSpace) s x)
      \<and> z \<in> set (matcher (Star (Class isWhiteSpace)) s w)"
    by (simp only: Plus_def whiteSpace_def Seq_member)
  then obtain w where w: "w \<in> set (matcher (Class isWhiteSpace) s x)"
    and z: "z \<in> set (matcher (Star (Class isWhiteSpace)) s w)"
    by blast
  from w have "fst x < length s" "isWhiteSpace (s ! fst x)" "fst w = fst x + 1"
    by (simp_all only: Class_member) simp_all
  moreover have "fst w \<le> fst z" using z by (rule matcher_advances)
  ultimately show ?thesis by simp
qed

lemma varDeclaration_shape:
  assumes "y \<in> set (matcher varDeclarationPattern s x)"
  shows "\<exists>k. fst x + k < fst y \<and> fst x + k < length s
           \<and> (\<forall>j<k. \<not> isWhiteSpace (s ! (fst x + j))) \<and> isWhiteSpace (s ! (fst x + k))"
proof -
  from assms have "\<exists>z1. z1 \<in> set (matcher WordBoundary s x)
      \<and> (\<exists>z2. z2 \<in> set (matcher (Group 1 declKeyword) s z1)
      \<and> (\<exists>z3. z3 \<in> set (matcher (Plus whiteSpace) s z2)
      \<and> y \<in> set (matcher (Seq (Group 2 (Seq (Class identStart) (Star (Class identPart))))
                  WordBoundary) s z3)))"
    by (simp only: varDeclarationPattern_def seqs.simps Seq_member)
  then obtain z1 z2 z3 where z1: "z1 \<in> set (matcher WordBoundary s x)"
    and z2: "z2 \<in> set (matcher (Group 1 declKeyword) s z1)"
    and z3: "z3 \<in> set (matcher (Plus whiteSpace) s z2)"
    and y: "y \<in> set (matcher (Seq (Group 2 (Seq (Class identStart) (Star (Class identPart)))) WordBoundary) s z3)"
    by blast
  from z1 have x: "z1 = x" by (simp only: WordBoundary_member)
  from z2 obtain u where u: "u \<in> set (matcher declKeyword s z1)" and "fst z2 = fst u"
    by (simp only: Group_member) auto
  then obtain k where k: "fst z2 = fst x + k" "\<forall>j<k. \<not> isWhiteSpace (s ! (fst x + j))"
    using declKeyword_shape [OF u] x by auto
  have "fst z2 < length s" "isWhiteSpace (s ! fst z2)" "fst z2 < fst z3"
    using Plus_whiteSpace_member [OF z3] by auto
  moreover have "fst z3 \<le> fst y" using y by (rule matcher_advances)
  ultimately show ?thesis using k by (intro exI [of _ k]) auto
qed

lemma splitScan_nonempty: "splitScan r s p q rest \<noteq> []"
  by (induction rest arbitrary: p q) (auto split: option.splits)

lemma splitScan_first_separator:
  assumes "\<forall>j. q \<le> j \<and> j < k \<longrightarrow> matchAt r d j = None"
    and "q \<le> k" and "k < length d" and "matchAt r d k = Some y" and "fst y \<noteq> p" and "p \<le> q"
  shows "splitScan r d p q (drop q d)
           = substring d p k # splitScan r d (fst y) (k + 1) (drop (k + 1) d)"
  using assms(1,2,6)
proof (induction "k - q" arbitrary: q)
  case 0
  then have "q = k" by simp
  moreover have "drop k d = d ! k # drop (k + 1) d"
    using assms(3) by (simp add: Cons_nth_drop_Suc)
  ultimately show ?case using assms(4,5) "0.prems"(3) by simp
next
  case (Suc n)
  then have "q < k" by simp
  then have "q < length d" using assms(3) by simp
  then have "drop q d = d ! q # drop (q + 1) d"
    by (simp add: Cons_nth_drop_Suc)
  moreover have "matchAt r d q = None" using Suc.prems(1) \<open>q < k\<close> by simp
  moreover have "splitScan r d p (q + 1) (drop (q + 1) d)
      = substring d p k # splitScan r d (fst y) (k + 1) (drop (k + 1) d)"
    using Suc \<open>q < k\<close> by (intro Suc.hyps(1)) auto
  ultimately show ?case using Suc.prems(3) by simp
qed

lemma whiteSpaceRun_fails:
  "\<not> (j < length d \<and> isWhiteSpace (d ! j)) \<Longrightarrow> matchAt whiteSpaceRun d j = None"
  by (auto simp: matchAt_def whiteSpaceRun_def Plus_def whiteSpace_def)

lemma whiteSpaceRun_matches:
  assumes "j < length d" and "isWhiteSpace (d ! j)"
  shows "\<exists>y. matchAt whiteSpaceRun d j = Some y \<and> j < fst y"
proof -
  let ?ys = "repeatMatcher (matcher (Class isWhiteSpace) d) (length d - (j + 1)) (j + 1, [])"
  have m: "matcher whiteSpaceRun d (j, []) = ?ys"
    using assms by (simp add: whiteSpaceRun_def Plus_def whiteSpace_def)
  obtain y ys where ys: "?ys = y # ys"
    using repeatMatcher_nonempty by (cases ?ys) auto
  then have "y \<in> set ?ys" by simp
  then have "j + 1 \<le> fst y"
    using repeatMatcher_advances [of "matcher (Class isWhiteSpace) d" y] matcher_advances
    by fastforce
  then show ?thesis using m ys by (simp add: matchAt_def)
qed

lemma split_declaration:
  assumes "k < length d" and "\<forall>j<k. \<not> isWhiteSpace (d ! j)" and "isWhiteSpace (d ! k)"
  shows "\<exists>name. element (splitRegex whiteSpaceRun d) 1 = Some name"
proof -
  obtain y where y: "matchAt whiteSpaceRun d k = Some y" "k < fst y"
    using whiteSpaceRun_matches assms(1,3) by blast
  have "\<forall>j. 0 \<le> j \<and> j < k \<longrightarrow> matchAt whiteSpaceRun d j = None"
    using whiteSpaceRun_fails assms(2) by blast
  then have "splitScan whiteSpaceRun d 0 0 (drop 0 d)
      = substring d 0 k # splitScan whiteSpaceRun d (fst y) (k + 1) (drop (k + 1) d)"
    using assms(1) y by (intro splitScan_first_separator) auto
  moreover obtain piece pieces where
    "splitScan whiteSpaceRun d (fst y) (k + 1) (drop (k + 1) d) = piece # pieces"
    using splitScan_nonempty by (metis list.exhaust)
  moreover have "d \<noteq> []" using assms(1) by auto
  ultimately show ?thesis by (simp add: splitRegex_def)
qed

lemma declarationNames_defined:
  "\<exists>names. defined (declarationNames code) = Some names"
proof -
  have "element (splitRegex whiteSpaceRun (substring code (fst m) (fst (snd m)))) 1 \<noteq> None"
    if m: "m \<in> set (matchAll varDeclarationPattern code)" for m
  proof -
    let ?d = "substring code (fst m) (fst (snd m))"
    have "snd m \<in> set (matcher varDeclarationPattern code (fst m, []))"
      using m by (rule matchAll_member)
    then obtain k where k: "fst m + k < fst (snd m)" "fst m + k < length code"
      "\<forall>j<k. \<not> isWhiteSpace (code ! (fst m + j))" "isWhiteSpace (code ! (fst m + k))"
      using varDeclaration_shape [of "snd m" code "(fst m, [])"] by auto
    have len: "k < length ?d" using k(1,2) by (auto simp: substring_def)
    have nth: "?d ! j = code ! (fst m + j)" if "j \<le> k" for j
      using that k(1,2) by (auto simp: substring_def)
    have "\<forall>j<k. \<not> isWhiteSpace (?d ! j)" using k(3) nth by simp
    moreover have "isWhiteSpace (?d ! k)" using k(4) nth by simp
    ultimately show ?thesis using split_declaration [OF len] by auto
  qed
  then show ?thesis
    unfolding declarationNames_def matchOrEmpty_def map_map comp_def
    using defined_map [of "matchAll varDeclarationPattern code"
        "\<lambda>m. element (splitRegex whiteSpaceRun (substring code (fst m) (fst (snd m)))) 1"]
    by blast
qed

section \<open>Termination of countOccurrences\<close>

lemma indexOfFrom_bounds:
  "indexOfFrom searchStr rest k = Some p \<Longrightarrow> searchStr \<noteq> [] \<Longrightarrow> k \<le> p \<and> p < k + length rest"
proof (induction rest arbitrary: k)
  case Nil
  then show ?case by simp
next
  case (Cons c rest)
  show ?case
  proof (cases "take (length searchStr) (c # rest) = searchStr")
    case True
    then show ?thesis using Cons.prems by simp
  next
    case False
    then have "indexOfFrom searchStr rest (k + 1) = Some p"
      using Cons.prems by simp
    then have "k + 1 \<le> p \<and> p < k + 1 + length rest"
      using Cons.IH Cons.prems(2) by blast
    then show ?thesis by simp
  qed
qed

lemma indexOf_bounds:
  assumes "indexOf str searchStr fromIndex = Some p" and "searchStr \<noteq> []"
  shows "min fromIndex (length str) \<le> p \<and> p < length str"
  using indexOfFrom_bounds [of searchStr "drop (min fromIndex (length str)) str"
      "min fromIndex (length str)" p] assms
  by (auto simp: indexOf_def Let_def)

lemma countLoop_None: "countLoop str searchStr c None = Some c"
  by (subst countLoop.simps) simp

lemma countLoop_Some:
  "countLoop str searchStr c (Some p) = countLoop str searchStr (c + 1) (indexOf str searchStr (p + 1))"
  by (subst countLoop.simps) simp

lemma countLoop_returns:
  assumes "searchStr \<noteq> []"
  shows "\<exists>n. countLoop str searchStr c (Some p) = Some n"
proof (induction "length str - p" arbitrary: p c rule: less_induct)
  case less
  show ?case
  proof (cases "indexOf str searchStr (p + 1)")
    case None
    then show ?thesis
      by (simp add: countLoop_Some countLoop_None)
  next
    case (Some q)
    then have q: "min (p + 1) (length str) \<le> q" "q < length str"
      using indexOf_bounds assms by blast+
    then have "length str - q < length str - p" by auto
    then have "\<exists>n. countLoop str searchStr (c + 1) (Some q) = Some n"
      by (rule less.hyps)
    then show ?thesis using Some
      by (simp add: countLoop_Some)
  qed
qed

lemma countOccurrences_returns:
  "searchStr \<noteq> [] \<Longrightarrow> \<exists>n. countOccurrences str searchStr = Some n"
  unfolding countOccurrences_def
  by (cases "indexOf str searchStr 0") (simp_all add: countLoop_None countLoop_returns)

section \<open>Properties of calculateBonusPoints and calculateScore\<close>

lemma double_examples:
  "double 1 = 1" "double 2 = 2" "double 5 = 5" "double 6 = 6" "double 8 = 8" "double 50 = 50"
  by (simp_all add: double_eval)

text \<open>
  The averages 5/4 and 7/5: the double nearest to 7/5 lies below it, so ten times the
  difference is a little less than 1.5 and is rounded to 1 (the exact value 1.5 would
  give 2).
\<close>

lemma double_rename_example:
  "double (5 / 4) = 5 / 4"
  "double (7 / 5) = 3152519739159347 / 2251799813685248"
  "double (337769972052787 / 2251799813685248) = 337769972052787 / 2251799813685248"
  "double (1688849860263935 / 1125899906842624) = 1688849860263935 / 1125899906842624"
  by (simp_all add: double_eval)

lemma lengthBonusOf_rounds_doubles:
  "lengthBonusOf [js ''a'', js ''b'', js ''c'', js ''dd'']
     [js ''a'', js ''b'', js ''c'', js ''dd'', js ''ee''] = 1"
  by (simp add: lengthBonusOf_def averageLength_def roundHalfUp_numerals double_rename_example
      js_def)

text \<open>The averages 5/3 and 101/48: eight times the difference of the doubles is below 3.5.\<close>

lemma double_challenge_example:
  "double (5 / 3) = 7505999378950827 / 4503599627370496"
  "double (101 / 48) = 4738162107962709 / 2251799813685248"
  "double (1970324836974591 / 4503599627370496) = 1970324836974591 / 4503599627370496"
  "double (1970324836974591 / 562949953421312) = 1970324836974591 / 562949953421312"
  by (simp_all add: double_eval)

lemma variableNameComponent_rounds_doubles:
  "variableNameComponent
     \<lparr>nameCount = 3, avgLength = double (5 / 3), shortNames = 0, descriptiveNames = 0\<rparr>
     \<lparr>nameCount = 48, avgLength = double (101 / 48), shortNames = 0, descriptiveNames = 0\<rparr>
     = 3"
  by (simp add: variableNameComponent_def roundHalfUp_numerals double_challenge_example)

lemma transformer_ids_distinct:
  "js ''minify'' \<noteq> js ''format''"
  "js ''rename-variables'' \<noteq> js ''format''"
  "js ''rename-variables'' \<noteq> js ''minify''"
  "js ''rename-variables'' \<noteq> js ''es6-to-es5''"
  "js ''rename-variables'' \<noteq> js ''jsx-to-js''"
  by (simp_all add: js_def cu_def)

lemma search_strings_nonempty:
  "js ''=>'' \<noteq> []" "js ''let '' \<noteq> []" "js ''const '' \<noteq> []" "js ''<'' \<noteq> []"
  by (simp_all add: js_def)

lemma calculateBonusPoints_returns:
  "\<exists>bonus. calculateBonusPoints originalCode transformedCode transformerId = Some bonus"
proof -
  obtain a1 a2 l1 c1 l2 c2 t1 t2 where counts:
    "countOccurrences originalCode (js ''=>'') = Some a1"
    "countOccurrences transformedCode (js ''=>'') = Some a2"
    "countOccurrences originalCode (js ''let '') = Some l1"
    "countOccurrences originalCode (js ''const '') = Some c1"
    "countOccurrences transformedCode (js ''let '') = Some l2"
    "countOccurrences transformedCode (js ''const '') = Some c2"
    "countOccurrences originalCode (js ''<'') = Some t1"
    "countOccurrences transformedCode (js ''<'') = Some t2"
    using countOccurrences_returns search_strings_nonempty by meson
  obtain ons tns where names:
    "defined (declarationNames originalCode) = Some ons"
    "defined (declarationNames transformedCode) = Some tns"
    using declarationNames_defined by meson
  show ?thesis
    unfolding calculateBonusPoints_def by (simp add: counts names Let_def)
qed

lemma calculateScore_returns:
  "\<exists>total. calculateScore originalCode transformedCode transformerId = Some total"
  using calculateBonusPoints_returns [of originalCode transformedCode transformerId]
  by (auto simp: calculateScore_def Let_def)

lemma unlisted_not_equal:
  assumes "transformerId \<notin> fst ` set TRANSFORMATION_POINTS"
  shows "transformerId \<noteq> js ''format''" "transformerId \<noteq> js ''minify''"
    "transformerId \<noteq> js ''es6-to-es5''" "transformerId \<noteq> js ''jsx-to-js''"
    "transformerId \<noteq> js ''rename-variables''" "transformerId \<noteq> js ''flatten-control-flow''"
    "transformerId \<noteq> js ''remove-dead-code''"
  using assms by (auto simp: TRANSFORMATION_POINTS_def)

lemma calculateScore_unlisted:
  assumes "transformerId \<notin> fst ` set TRANSFORMATION_POINTS"
    and "transformerId \<notin> set Object_prototype_names"
  shows "basePointsOf transformerId = Number (num 5)"
    and "calculateBonusPoints originalCode transformedCode transformerId = Some 0"
    and "calculateScore originalCode transformedCode transformerId
           = Some (Math_round (js_mul (num 5) (calculateComplexityFactor originalCode transformedCode)))"
proof -
  have "map_of TRANSFORMATION_POINTS transformerId = None"
    using assms(1) by (simp add: map_of_eq_None_iff)
  then show base: "basePointsOf transformerId = Number (num 5)"
    using assms(2) by (simp add: basePointsOf_def getProperty_def)
  show bonus: "calculateBonusPoints originalCode transformedCode transformerId = Some 0"
    using unlisted_not_equal [OF assms(1)] by (simp add: calculateBonusPoints_def)
  obtain f where f: "calculateComplexityFactor originalCode transformedCode = Fin f"
    using calculateComplexityFactor_product by blast
  show "calculateScore originalCode transformedCode transformerId
           = Some (Math_round (js_mul (num 5) (calculateComplexityFactor originalCode transformedCode)))"
    by (simp add: calculateScore_def base bonus f num_def)
qed

text \<open>
  C1. An id that is not a key of the table still finds a value in it when it is the
  name of a member of \<open>Object.prototype\<close>: the lookup yields that member, which is
  truthy, so the default 5 is not taken, and the product with the complexity factor is
  NaN.  For "constructor", with bonus 0 and complexity factor 1.0, calculateScore
  returns NaN and not 5.  (For every other unlisted id the base points are 5:
  \<open>calculateScore_unlisted\<close>.)
\<close>

theorem calculateScore_inherited_name:
  "js ''constructor'' \<notin> fst ` set TRANSFORMATION_POINTS
   \<and> calculateComplexityFactor (js ''abc'') (js ''abc'') = Fin 1
   \<and> calculateBonusPoints (js ''abc'') (js ''abc'') (js ''constructor'') = Some 0
   \<and> basePointsOf (js ''constructor'') = PrototypeMember
   \<and> calculateScore (js ''abc'') (js ''abc'') (js ''constructor'') = Some NaN"
  by (simp add: calculateScore_def basePointsOf_def getProperty_def TRANSFORMATION_POINTS_def
      Object_prototype_names_def calculateBonusPoints_def calculateComplexityFactor_def
      strlen_def num_def char_classes)

text \<open>
  C6. The result of calculateScore is not floored at 0: there are inputs with a
  negative total.  For the original "x", thirteen "<" as the transformed code and the
  transformer jsx-to-js the total is 40 * 1.5 - 5 * 13 = -5.
\<close>

theorem calculateScore_can_be_negative:
  "\<exists>originalCode transformedCode transformerId total.
      calculateScore originalCode transformedCode transformerId = Some (Fin total) \<and> total < 0"
proof -
  have "calculateScore (js ''x'') (js ''<<<<<<<<<<<<<'') (js ''jsx-to-js'') = Some (Fin (- 5))"
    by (simp add: calculateScore_def basePointsOf_def getProperty_def TRANSFORMATION_POINTS_def
        Object_prototype_names_def calculateBonusPoints_def calculateComplexityFactor_def
        strlen_def num_def countOccurrences_def countLoop_None countLoop_Some indexOf_def
        roundHalfUp_numerals char_classes)
  then show ?thesis by (intro exI [of _ "- 5"] exI conjI) simp_all
qed

text \<open>
  C3 (as the code has it). For every pair of inputs the rename-variables bonus is the
  rounded tenfold increase of the average declared name length (0 without an increase;
  the averages, the increase and its tenfold are doubles, \<open>lengthBonusOf\<close>) plus 5
  for every one-character name fewer in the transformed code; the second term is
  added only if the transformed code has fewer one-character names than the original,
  and is 0 otherwise.
\<close>

theorem renameBonus_only_if_reduced:
  "\<exists>originalNames transformedNames.
      defined (declarationNames originalCode) = Some originalNames
      \<and> defined (declarationNames transformedCode) = Some transformedNames
      \<and> calculateBonusPoints originalCode transformedCode (js ''rename-variables'')
          = Some (lengthBonusOf originalNames transformedNames
                  + (if singleCharNames transformedNames < singleCharNames originalNames
                     then 5 * (singleCharNames originalNames - singleCharNames transformedNames)
                     else 0))"
proof -
  obtain ons where ons: "defined (declarationNames originalCode) = Some ons"
    using declarationNames_defined by blast
  obtain tns where tns: "defined (declarationNames transformedCode) = Some tns"
    using declarationNames_defined by blast
  have "calculateBonusPoints originalCode transformedCode (js ''rename-variables'')
      = Some (lengthBonusOf ons tns
              + (if singleCharNames tns < singleCharNames ons
                 then 5 * (singleCharNames ons - singleCharNames tns) else 0))"
    by (simp add: calculateBonusPoints_def transformer_ids_distinct ons tns Let_def
        lengthBonusOf_def singleCharNames_def)
  with ons tns show ?thesis by blast
qed

text \<open>
  The claim C3 as stated fails: for the original "var ab;" and the transformed
  "var a;" the code gives the bonus 0, where the signed second term would give -5.
\<close>

theorem renameBonus_signed_counterexample:
  "defined (declarationNames (js ''var ab;'')) = Some [js ''ab'']
   \<and> defined (declarationNames (js ''var a;'')) = Some [js ''a'']
   \<and> calculateBonusPoints (js ''var ab;'') (js ''var a;'') (js ''rename-variables'') = Some 0
   \<and> renameBonus_spec [js ''ab''] [js ''a''] = - 5
   \<and> calculateBonusPoints (js ''var ab;'') (js ''var a;'') (js ''rename-variables'')
       \<noteq> Some (renameBonus_spec [js ''ab''] [js ''a''])"
proof -
  have "declarationNames (js ''var ab;'') = [Some (js ''ab'')]"
    by (simp add: declarationNames_def char_classes regex_engine regex_patterns)
  moreover have "declarationNames (js ''var a;'') = [Some (js ''a'')]"
    by (simp add: declarationNames_def char_classes regex_engine regex_patterns)
  moreover have "calculateBonusPoints (js ''var ab;'') (js ''var a;'') (js ''rename-variables'') = Some 0"
    by (simp add: calculateBonusPoints_def declarationNames_def averageLength_def double_examples
        char_classes regex_engine regex_patterns)
  moreover have "renameBonus_spec [js ''ab''] [js ''a''] = - 5"
    by (simp add: renameBonus_spec_def lengthBonusOf_def singleCharNames_def averageLength_def
        double_examples js_def)
  ultimately show ?thesis by simp
qed

text \<open>
  The same rounding in calculateBonusPoints itself: four declarations with the average
  name length 5/4 against five with the average 7/5.
\<close>

lemma rename_bonus_rounds_doubles:
  "calculateBonusPoints (js ''var a;var b;var c;var dd;'')
     (js ''var a;var b;var c;var dd;var ee;'') (js ''rename-variables'') = Some 1"
proof -
  have "declarationNames (js ''var a;var b;var c;var dd;'')
      = [Some (js ''a''), Some (js ''b''), Some (js ''c''), Some (js ''dd'')]"
    by (simp add: declarationNames_def char_classes regex_engine regex_patterns)
  moreover have "declarationNames (js ''var a;var b;var c;var dd;var ee;'')
      = [Some (js ''a''), Some (js ''b''), Some (js ''c''), Some (js ''dd''), Some (js ''ee'')]"
    by (simp add: declarationNames_def char_classes regex_engine regex_patterns)
  moreover have "js ''rename-variables'' \<noteq> js ''format''" "js ''rename-variables'' \<noteq> js ''minify''"
    "js ''rename-variables'' \<noteq> js ''es6-to-es5''" "js ''rename-variables'' \<noteq> js ''jsx-to-js''"
    by (rule transformer_ids_distinct)+
  moreover have "length (js ''a'') = 1" "length (js ''b'') = 1" "length (js ''c'') = 1"
    "length (js ''dd'') = 2" "length (js ''ee'') = 2"
    by (simp_all add: js_def)
  ultimately show ?thesis
    by (simp add: calculateBonusPoints_def averageLength_def roundHalfUp_numerals
        double_rename_example)
qed

lemma minify_bonus:
  "0 < length originalCode \<Longrightarrow>
     calculateBonusPoints originalCode transformedCode (js ''minify'')
       = Some (minifyTier (reductionRatio originalCode transformedCode))"
  by (simp add: calculateBonusPoints_def transformer_ids_distinct sizeReductionOf_def
      reductionRatio_def minifyTier_def strlen_Fin Let_def)

lemma minifyTier_mono: "a \<le> b \<Longrightarrow> minifyTier a \<le> minifyTier b"
  by (simp add: minifyTier_def)

text \<open>
  C8. For an original of positive length and two transformed variants A and B, if the
  size reduction ratio of B is strictly greater than that of A, then the minify bonus
  of B is at least the minify bonus of A; each bonus is the tier of its ratio
  (above 0.5: 30, above 0.3: 20, above 0.1: 10, else 0).
\<close>

theorem minify_bonus_monotone:
  "0 < length originalCode \<Longrightarrow>
   reductionRatio originalCode variantA < reductionRatio originalCode variantB \<Longrightarrow>
     \<exists>bonusA bonusB.
        calculateBonusPoints originalCode variantA (js ''minify'') = Some bonusA
        \<and> calculateBonusPoints originalCode variantB (js ''minify'') = Some bonusB
        \<and> bonusA = minifyTier (reductionRatio originalCode variantA)
        \<and> bonusB = minifyTier (reductionRatio originalCode variantB)
        \<and> bonusA \<le> bonusB"
proof -
  assume len: "0 < length originalCode"
    and less: "reductionRatio originalCode variantA < reductionRatio originalCode variantB"
  have "minifyTier (reductionRatio originalCode variantA)
      \<le> minifyTier (reductionRatio originalCode variantB)"
    using less by (intro minifyTier_mono) simp
  then show ?thesis
    using minify_bonus [OF len] by simp
qed

theorem minify_bonus_monotone_witness:
  "0 < length (js ''aaaaaaaaaa'')
   \<and> reductionRatio (js ''aaaaaaaaaa'') (js ''aaaaaaaa'') < reductionRatio (js ''aaaaaaaaaa'') (js ''aaaa'')
   \<and> calculateBonusPoints (js ''aaaaaaaaaa'') (js ''aaaaaaaa'') (js ''minify'') = Some 10
   \<and> calculateBonusPoints (js ''aaaaaaaaaa'') (js ''aaaa'') (js ''minify'') = Some 30"
proof -
  have len: "0 < length (js ''aaaaaaaaaa'')"
    by (simp add: js_def)
  have lt: "reductionRatio (js ''aaaaaaaaaa'') (js ''aaaaaaaa'') < reductionRatio (js ''aaaaaaaaaa'') (js ''aaaa'')"
    by (simp add: reductionRatio_def js_def)
  have a: "calculateBonusPoints (js ''aaaaaaaaaa'') (js ''aaaaaaaa'') (js ''minify'') = Some 10"
    by (simp add: calculateBonusPoints_def transformer_ids_distinct sizeReductionOf_def strlen_def num_def js_def cu_def)
  have b: "calculateBonusPoints (js ''aaaaaaaaaa'') (js ''aaaa'') (js ''minify'') = Some 30"
    by (simp add: calculateBonusPoints_def transformer_ids_distinct sizeReductionOf_def strlen_def num_def js_def cu_def)
  from minify_bonus_monotone [OF len lt] len lt a b show ?thesis by simp
qed

section \<open>Properties of calculateReadabilityScore\<close>

lemma readability_eval: "calculateReadabilityScore (Str (js ''eval('x');'')) = Some 90"
  by (simp add: calculateReadabilityScore_def readabilitySum_def roundHalfUp_numerals lineCountOf_def
       char_classes regex_engine regex_patterns)

text \<open>
  C4. For every input calculateReadabilityScore returns an integer between 0 and 100;
  for an input that is not a string and for the empty string it returns 0; for a
  non-empty string it returns the sum of the signals, clamped to [0, 100] and rounded;
  and for "eval('x');" it returns 90.
\<close>

theorem calculateReadabilityScore_range:
  "(\<exists>r. calculateReadabilityScore input = Some r \<and> 0 \<le> r \<and> r \<le> 100)
   \<and> calculateReadabilityScore NotAString = Some 0
   \<and> calculateReadabilityScore (Str []) = Some 0
   \<and> (\<exists>functionBodies arrowBodies.
         defined (map (\<lambda>m. matchGroup code m 2) (matchAll functionPattern code)) = Some functionBodies
         \<and> defined (map (\<lambda>m. matchGroup code m 1) (matchAll arrowFunctionPattern code)) = Some arrowBodies
         \<and> calculateReadabilityScore (Str code) =
             (if code = [] then Some 0
              else Some (roundHalfUp (of_int (max 0 (min 100
                     (readabilitySum code functionBodies arrowBodies)))))))
   \<and> calculateReadabilityScore (Str (js ''eval('x');'')) = Some 90"
proof -
  have shape: "\<exists>fb ab.
      defined (map (\<lambda>m. matchGroup c m 2) (matchAll functionPattern c)) = Some fb
      \<and> defined (map (\<lambda>m. matchGroup c m 1) (matchAll arrowFunctionPattern c)) = Some ab
      \<and> calculateReadabilityScore (Str c) =
          (if c = [] then Some 0
           else Some (roundHalfUp (of_int (max 0 (min 100 (readabilitySum c fb ab))))))" for c
  proof -
    obtain fb where fb: "defined (map (\<lambda>m. matchGroup c m 2) (matchAll functionPattern c)) = Some fb"
      using groups_defined [OF binds_patterns(2)] by blast
    obtain ab where ab: "defined (map (\<lambda>m. matchGroup c m 1) (matchAll arrowFunctionPattern c)) = Some ab"
      using groups_defined [OF binds_patterns(3)] by blast
    have "calculateReadabilityScore (Str c) =
          (if c = [] then Some 0
           else Some (roundHalfUp (of_int (max 0 (min 100 (readabilitySum c fb ab))))))"
      by (simp add: calculateReadabilityScore_def fb ab Let_def roundHalfUp_of_int del: One_nat_def)
    with fb ab show ?thesis by blast
  qed
  have "\<exists>r. calculateReadabilityScore input = Some r \<and> 0 \<le> r \<and> r \<le> 100"
  proof (cases input)
    case (Str c)
    obtain fb ab where "calculateReadabilityScore (Str c) =
          (if c = [] then Some 0
           else Some (roundHalfUp (of_int (max 0 (min 100 (readabilitySum c fb ab))))))"
      using shape [of c] by blast
    then show ?thesis using Str by (simp add: roundHalfUp_of_int)
  next
    case NotAString
    then show ?thesis by (simp add: calculateReadabilityScore_def)
  qed
  moreover have "calculateReadabilityScore NotAString = Some 0"
    and "calculateReadabilityScore (Str []) = Some 0"
    by (simp_all add: calculateReadabilityScore_def)
  ultimately show ?thesis using shape [of code] readability_eval by blast
qed

section \<open>Properties of getChallengeScore\<close>

text \<open>
  C5. For every pair of inputs getChallengeScore returns a result whose score is
  round(clamp(50 + tokenCount + variableNameImprovement + evalRemoval + formatting,
  0, 100)), an integer between 0 and 100, equal to the total of the breakdown.
\<close>

theorem getChallengeScore_total:
  "\<exists>r. getChallengeScore originalCode transformedCode = Some r
     \<and> ChallengeScore.score r =
         roundHalfUp (of_int (max 0 (min 100
           (50 + (tokenCount (breakdown r) + variableNameImprovement (breakdown r)
                  + evalRemoval (breakdown r) + formatting (breakdown r))))))
     \<and> 0 \<le> ChallengeScore.score r \<and> ChallengeScore.score r \<le> 100
     \<and> ChallengeScore.score r = total (breakdown r)"
proof -
  obtain ov where ov: "analyzeVariableNames originalCode = Some ov"
    using analyzeVariableNames_returns by blast
  obtain tv where tv: "analyzeVariableNames transformedCode = Some tv"
    using analyzeVariableNames_returns by blast
  show ?thesis
    by (simp add: getChallengeScore_def ov tv Let_def roundHalfUp_of_int)
qed

lemma zero_tokens_examples:
  "countTokens (js '''') = 0" "countTokens (js '' ; '') = 0" "countTokens (js ''x'') = 1"
  by (simp_all add: countTokens_def char_classes regex_engine regex_patterns)

text \<open>
  C10. When the original code has no token, getChallengeScore still returns a result:
  its tokenCount component is 0 if the transformed code has no token either and -5 if
  it has at least one; the other three components are what they are for any original
  (they do not depend on the token counts), and the score stays within [0, 100].
\<close>

theorem getChallengeScore_zero_tokens:
  "countTokens originalCode = 0 \<Longrightarrow>
     \<exists>r ov tv. getChallengeScore originalCode transformedCode = Some r
       \<and> analyzeVariableNames originalCode = Some ov
       \<and> analyzeVariableNames transformedCode = Some tv
       \<and> tokenCount (breakdown r) = (if countTokens transformedCode = 0 then 0 else - 5)
       \<and> variableNameImprovement (breakdown r) = variableNameComponent ov tv
       \<and> evalRemoval (breakdown r) = evalRemovalComponent originalCode transformedCode
       \<and> formatting (breakdown r) = assessFormatting originalCode transformedCode
       \<and> 0 \<le> ChallengeScore.score r \<and> ChallengeScore.score r \<le> 100"
proof -
  assume zero: "countTokens originalCode = 0"
  obtain ov where ov: "analyzeVariableNames originalCode = Some ov"
    using analyzeVariableNames_returns by blast
  obtain tv where tv: "analyzeVariableNames transformedCode = Some tv"
    using analyzeVariableNames_returns by blast
  have "tokenCountComponent originalCode transformedCode
      = (if countTokens transformedCode = 0 then 0 else - 5)"
    by (simp add: tokenCountComponent_def zero num_def Let_def)
  then show ?thesis
    by (simp add: getChallengeScore_def ov tv Let_def roundHalfUp_of_int)
qed

theorem getChallengeScore_zero_tokens_witness:
  "countTokens (js '' ; '') = 0
   \<and> (\<exists>r. getChallengeScore (js '' ; '') (js ''x'') = Some r \<and> tokenCount (breakdown r) = - 5)
   \<and> (\<exists>r. getChallengeScore (js '' ; '') (js '''') = Some r \<and> tokenCount (breakdown r) = 0)"
proof -
  have zero: "countTokens (js '' ; '') = 0"
    by (rule zero_tokens_examples)
  from getChallengeScore_zero_tokens [OF zero, of "js ''x''"]
  have "\<exists>r. getChallengeScore (js '' ; '') (js ''x'') = Some r \<and> tokenCount (breakdown r) = - 5"
    by (auto simp: zero_tokens_examples)
  moreover from getChallengeScore_zero_tokens [OF zero, of "js ''''"]
  have "\<exists>r. getChallengeScore (js '' ; '') (js '''') = Some r \<and> tokenCount (breakdown r) = 0"
    by (auto simp: zero_tokens_examples)
  ultimately show ?thesis using zero by blast
qed

section \<open>The worked scenarios of the specification\<close>

text \<open>
  Renaming \<open>x\<close> to \<open>xValue\<close>: the average name length grows by 5 (bonus 50), one
  one-character name disappears (bonus 5), the base is 25 and the complexity factor
  is 1.3 (the length changes by one half); round(25 * 1.3 + 55) = 88.
\<close>

lemma scenario_rename_variables:
  "calculateScore (js ''let x = 1;'') (js ''let xValue = 1;'') (js ''rename-variables'')
     = Some (Fin 88)"
  by (simp add: calculateScore_def basePointsOf_def getProperty_def TRANSFORMATION_POINTS_def
      Object_prototype_names_def calculateBonusPoints_def calculateComplexityFactor_def
      strlen_def num_def declarationNames_def averageLength_def roundHalfUp_numerals
      double_examples char_classes regex_engine regex_patterns)

text \<open>
  Replacing \<open>eval(x);\<close> by \<open>const y = x;\<close>: the eval is removed (20), the token ratio is
  3 / 2 (0), the average name length grows from 0 to 1 (8), the formatting is the same
  (0); the score is 78.
\<close>

lemma scenario_eval_removed:
  "getChallengeScore (js ''eval(x);'') (js ''const y = x;'')
     = Some \<lparr> ChallengeScore.score = 78,
              breakdown = \<lparr> tokenCount = 0, variableNameImprovement = 8, evalRemoval = 20,
                            formatting = 0, total = 78 \<rparr> \<rparr>"
  by (simp add: getChallengeScore_def tokenCountComponent_def variableNameComponent_def
      evalRemovalComponent_def assessFormatting_def countTokens_def analyzeVariableNames_def
      longLines_def countIndentationIssues_def trim_def trimStart_def endsWith_def startsWith_def
      includes_str_def indexOf_def num_def roundHalfUp_numerals double_examples
      char_classes regex_engine regex_patterns)

end
